theory Spec2Isabelle
  imports Complex_Main "HOL-Library.AList"
begin

section \<open>Python values shared by the two narrative structures\<close>

text \<open>
  A Python \<^verbatim>\<open>str\<close> is a \<^typ>\<open>string\<close>: a list of 8-bit characters. An ASCII text is
  the list of its characters, and its length is Python's \<^verbatim>\<open>len\<close>; a text with other
  characters, such as the Cyrillic literals of the Story Circle, is the list of the bytes of
  its UTF-8 encoding, which keeps equality of texts and the substring test. Python floats
  are idealised as \<^typ>\<open>real\<close>;
  the text that an f-string prints for a float is a parameter \<open>float_str\<close> of the functions
  that print one. A dictionary is an association list in insertion order, written with
  \<^const>\<open>AList.update\<close> and read with \<^const>\<open>map_of\<close>.
\<close>

datatype py_error = ZeroDivisionError | AttributeError

text \<open>\<^verbatim>\<open>sep.join(parts)\<close>\<close>

fun join :: "string \<Rightarrow> string list \<Rightarrow> string" where
  "join sep [] = []"
| "join sep [p] = p"
| "join sep (p # q # ps) = p @ sep @ join sep (q # ps)"

text \<open>The decimal text of an integer, as an f-string prints it.\<close>

definition digit_char :: "nat \<Rightarrow> char" where
  "digit_char d = ''0123456789'' ! d"

fun str_nat :: "nat \<Rightarrow> string" where
  "str_nat n = (if n < 10 then [digit_char n] else str_nat (n div 10) @ [digit_char (n mod 10)])"

declare str_nat.simps [simp del]

definition str_int :: "int \<Rightarrow> string" where
  "str_int i = (if i < 0 then CHR ''-'' # str_nat (nat (- i)) else str_nat (nat i))"

text \<open>
  \<^verbatim>\<open>s.lower()\<close>. On ASCII text it folds the letters A to Z and nothing else. On text
  with other characters Python folds by the Unicode tables (the Kelvin sign becomes \<open>k\<close>):
  that result, on the UTF-8 bytes of the text, is the parameter \<open>unicode_lower\<close> of the
  functions that lower-case. \<^verbatim>\<open>s.replace(old, new)\<close> is modelled for one-character
  \<open>old\<close> and \<open>new\<close>, the only use the source makes of it.
\<close>

definition lower_char :: "char \<Rightarrow> char" where
  "lower_char c =
     (case map_of (zip ''ABCDEFGHIJKLMNOPQRSTUVWXYZ'' ''abcdefghijklmnopqrstuvwxyz'') c of
        Some d \<Rightarrow> d
      | None \<Rightarrow> c)"

definition is_ascii :: "char \<Rightarrow> bool" where
  "is_ascii c = (\<not> digit7 c)"

definition lower :: "(string \<Rightarrow> string) \<Rightarrow> string \<Rightarrow> string" where
  "lower unicode_lower s =
     (if list_all is_ascii s then map lower_char s else unicode_lower s)"

definition replace_char :: "char \<Rightarrow> char \<Rightarrow> string \<Rightarrow> string" where
  "replace_char old new s = map (\<lambda>c. if c = old then new else c) s"

text \<open>\<^verbatim>\<open>p in s\<close> on strings, and the number of places of \<open>s\<close> at which \<open>p\<close> starts.\<close>

fun starts_with :: "'a list \<Rightarrow> 'a list \<Rightarrow> bool" where
  "starts_with [] s = True"
| "starts_with (x # p) [] = False"
| "starts_with (x # p) (y # s) = (if x = y then starts_with p s else False)"

fun contains :: "'a list \<Rightarrow> 'a list \<Rightarrow> bool" where
  "contains p [] = (p = [])"
| "contains p (c # s) = (if starts_with p (c # s) then True else contains p s)"

fun count_occ :: "'a list \<Rightarrow> 'a list \<Rightarrow> nat" where
  "count_occ p [] = (if p = [] then 1 else 0)"
| "count_occ p (c # s) = (if starts_with p (c # s) then 1 else 0) + count_occ p s"

text \<open>\<^verbatim>\<open>text[start:end]\<close> for indices that are not negative.\<close>

definition slice :: "'a list \<Rightarrow> nat \<Rightarrow> nat \<Rightarrow> 'a list" where
  "slice text start end = drop start (take end text)"

text \<open>\<^verbatim>\<open>d.get(key, default)\<close> on a dictionary.\<close>

definition dict_get :: "('k \<times> 'v) list \<Rightarrow> 'k \<Rightarrow> 'v \<Rightarrow> 'v" where
  "dict_get d key dflt = (case map_of d key of Some v \<Rightarrow> v | None \<Rightarrow> dflt)"

text \<open>\<^verbatim>\<open>math.radians\<close>\<close>

definition radians :: "real \<Rightarrow> real" where
  "radians d = d * pi / 180"

text \<open>The external result containers of \<^verbatim>\<open>narr_mod\<close>, as plain records.\<close>

datatype StructureType = HARMON_CIRCLE | VOGLER_HERO_JOURNEY

record AnalysisMetadata =
  model_name :: string
  model_version :: string
  confidence :: real
  processing_time :: real
  structure_type :: StructureType
  display_name :: string

record 's AnalysisResult =
  "structure" :: 's
  summary :: string
  visualization :: string
  metadata :: AnalysisMetadata


section \<open>harmon\_story\_circle.py\<close>

datatype StoryStep = StoryStep
  (number: int) (name: string) (description: string) (color: string) (act: string)
  (analysis_criteria: "string list")

text \<open>
  The class attributes that the methods read through \<^verbatim>\<open>self\<close>; \<open>display_name\<close> is the
  property of the base class, whose value the module does not fix.
\<close>

record HarmonStoryCircle =
  STORY_STEPS :: "StoryStep list"
  CSS_TEMPLATE :: string
  display_name :: string

definition ACT_BEGINNING :: string where "ACT_BEGINNING = ''Beginning''"
definition ACT_MIDDLE :: string where "ACT_MIDDLE = ''Middle''"
definition ACT_END :: string where "ACT_END = ''End''"

definition Harmon_STORY_STEPS :: "StoryStep list" where
  "Harmon_STORY_STEPS =
   [StoryStep 1
      ([CHR 0xD0, CHR 0x97, CHR 0xD0, CHR 0xBE, CHR 0xD0, CHR 0xBD, CHR 0xD0, CHR 0xB0] @ '' '' @
       [CHR 0xD0, CHR 0xBA, CHR 0xD0, CHR 0xBE, CHR 0xD0, CHR 0xBC, CHR 0xD1, CHR 0x84, CHR 0xD0,
        CHR 0xBE, CHR 0xD1, CHR 0x80, CHR 0xD1, CHR 0x82, CHR 0xD0, CHR 0xB0])
      ''Comfort Zone'' ''#e74c3c'' ACT_BEGINNING
      [''character establishment'', ''initial world state'', ''status quo''],
    StoryStep 2
      ([CHR 0xD0, CHR 0x9F, CHR 0xD0, CHR 0xBE, CHR 0xD1, CHR 0x82, CHR 0xD1, CHR 0x80, CHR 0xD0,
        CHR 0xB5, CHR 0xD0, CHR 0xB1, CHR 0xD0, CHR 0xBD, CHR 0xD0, CHR 0xBE, CHR 0xD1, CHR 0x81,
        CHR 0xD1, CHR 0x82, CHR 0xD1, CHR 0x8C] @ '' '' @
       [CHR 0xD0, CHR 0xB8, CHR 0xD0, CHR 0xBB, CHR 0xD0, CHR 0xB8] @ '' '' @
       [CHR 0xD0, CHR 0xB6, CHR 0xD0, CHR 0xB5, CHR 0xD0, CHR 0xBB, CHR 0xD0, CHR 0xB0, CHR 0xD0,
        CHR 0xBD, CHR 0xD0, CHR 0xB8, CHR 0xD0, CHR 0xB5])
      ''Need or Desire'' ''#3498db'' ACT_BEGINNING
      [''motivation clarity'', ''stakes establishment'', ''goal definition''],
    StoryStep 3
      ([CHR 0xD0, CHR 0x9D, CHR 0xD0, CHR 0xB5, CHR 0xD0, CHR 0xB7, CHR 0xD0, CHR 0xBD, CHR 0xD0,
        CHR 0xB0, CHR 0xD0, CHR 0xBA, CHR 0xD0, CHR 0xBE, CHR 0xD0, CHR 0xBC, CHR 0xD0, CHR 0xB0,
        CHR 0xD1, CHR 0x8F] @ '' '' @
       [CHR 0xD1, CHR 0x81, CHR 0xD0, CHR 0xB8, CHR 0xD1, CHR 0x82, CHR 0xD1, CHR 0x83, CHR 0xD0,
        CHR 0xB0, CHR 0xD1, CHR 0x86, CHR 0xD0, CHR 0xB8, CHR 0xD1, CHR 0x8F])
      ''Unfamiliar Situation'' ''#2ecc71'' ACT_MIDDLE
      [''comfort zone departure'', ''new challenges'', ''initial adaptation''],
    StoryStep 4
      ([CHR 0xD0, CHR 0x9F, CHR 0xD0, CHR 0xBE, CHR 0xD0, CHR 0xB8, CHR 0xD1, CHR 0x81, CHR 0xD0,
        CHR 0xBA] @ '' '' @ [CHR 0xD0, CHR 0xB8] @ '' '' @
       [CHR 0xD0, CHR 0xB0, CHR 0xD0, CHR 0xB4, CHR 0xD0, CHR 0xB0, CHR 0xD0, CHR 0xBF, CHR 0xD1,
        CHR 0x82, CHR 0xD0, CHR 0xB0, CHR 0xD1, CHR 0x86, CHR 0xD0, CHR 0xB8, CHR 0xD1, CHR 0x8F])
      ''Search and Adaptation'' ''#f39c12'' ACT_MIDDLE
      [''challenge handling'', ''skill development'', ''world exploration''],
    StoryStep 5
      ([CHR 0xD0, CHR 0x9F, CHR 0xD0, CHR 0xBE, CHR 0xD0, CHR 0xBB, CHR 0xD1, CHR 0x83, CHR 0xD1,
        CHR 0x87, CHR 0xD0, CHR 0xB5, CHR 0xD0, CHR 0xBD, CHR 0xD0, CHR 0xB8, CHR 0xD0, CHR 0xB5] @
       '' '' @
       [CHR 0xD0, CHR 0xB6, CHR 0xD0, CHR 0xB5, CHR 0xD0, CHR 0xBB, CHR 0xD0, CHR 0xB0, CHR 0xD0,
        CHR 0xB5, CHR 0xD0, CHR 0xBC, CHR 0xD0, CHR 0xBE, CHR 0xD0, CHR 0xB3, CHR 0xD0, CHR 0xBE])
      ''Getting What They Wanted'' ''#9b59b6'' ACT_MIDDLE
      [''goal achievement'', ''price recognition'', ''consequence understanding''],
    StoryStep 6
      ([CHR 0xD0, CHR 0x9F, CHR 0xD0, CHR 0xBB, CHR 0xD0, CHR 0xB0, CHR 0xD1, CHR 0x82, CHR 0xD0,
        CHR 0xB0] @ '' '' @ [CHR 0xD0, CHR 0xB7, CHR 0xD0, CHR 0xB0] @ '' '' @
       [CHR 0xD0, CHR 0xBD, CHR 0xD0, CHR 0xB5, CHR 0xD0, CHR 0xB3, CHR 0xD0, CHR 0xBE])
      ''Paying the Price'' ''#e67e22'' ACT_MIDDLE
      [''sacrifice measurement'', ''cost evaluation'', ''change catalyst''],
    StoryStep 7
      ([CHR 0xD0, CHR 0x92, CHR 0xD0, CHR 0xBE, CHR 0xD0, CHR 0xB7, CHR 0xD0, CHR 0xB2, CHR 0xD1,
        CHR 0x80, CHR 0xD0, CHR 0xB0, CHR 0xD1, CHR 0x89, CHR 0xD0, CHR 0xB5, CHR 0xD0, CHR 0xBD,
        CHR 0xD0, CHR 0xB8, CHR 0xD0, CHR 0xB5] @ '' '' @ [CHR 0xD0, CHR 0xBA] @ '' '' @
       [CHR 0xD0, CHR 0xBF, CHR 0xD1, CHR 0x80, CHR 0xD0, CHR 0xB8, CHR 0xD0, CHR 0xB2, CHR 0xD1,
        CHR 0x8B, CHR 0xD1, CHR 0x87, CHR 0xD0, CHR 0xBD, CHR 0xD0, CHR 0xBE, CHR 0xD0, CHR 0xBC,
        CHR 0xD1, CHR 0x83])
      ''Return to Familiar'' ''#1abc9c'' ACT_END
      [''integration of change'', ''world comparison'', ''growth recognition''],
    StoryStep 8
      ([CHR 0xD0, CHR 0xA1, CHR 0xD0, CHR 0xBF, CHR 0xD0, CHR 0xBE, CHR 0xD1, CHR 0x81, CHR 0xD0,
        CHR 0xBE, CHR 0xD0, CHR 0xB1, CHR 0xD0, CHR 0xBD, CHR 0xD0, CHR 0xBE, CHR 0xD1, CHR 0x81,
        CHR 0xD1, CHR 0x82, CHR 0xD1, CHR 0x8C] @ '' '' @
       [CHR 0xD0, CHR 0xBC, CHR 0xD0, CHR 0xB5, CHR 0xD0, CHR 0xBD, CHR 0xD1, CHR 0x8F, CHR 0xD1,
        CHR 0x82, CHR 0xD1, CHR 0x8C, CHR 0xD1, CHR 0x81, CHR 0xD1, CHR 0x8F])
      ''Changed State'' ''#34495e'' ACT_END
      [''character evolution'', ''lesson application'', ''new normal'']]"

text \<open>The triple-quoted literal, line by line: its lines are joined by newlines.\<close>

definition Harmon_CSS_TEMPLATE :: string where
  "Harmon_CSS_TEMPLATE = join ''\<newline>''
    ['''',
     ''        .harmon-circle {'',
     ''            width: 400px;'',
     ''            height: 400px;'',
     ''            border-radius: 50%;'',
     ''            border: 2px solid #333;'',
     ''            position: relative;'',
     ''            margin: 50px auto;'',
     ''        }'',
     ''        .step {'',
     ''            position: absolute;'',
     ''            width: 100px;'',
     ''            text-align: center;'',
     ''            transform-origin: center;'',
     ''            transition: all 0.3s ease;'',
     ''        }'',
     ''        .step:hover {'',
     ''            transform-origin: center;'',
     ''            transform: scale(1.1);'',
     ''        }'',
     ''        .step-number {'',
     ''            font-weight: bold;'',
     ''            font-size: 18px;'',
     ''            margin-bottom: 5px;'',
     ''        }'',
     ''        .step-name {'',
     ''            font-size: 12px;'',
     ''        }'',
     ''        .circle-center {'',
     ''            position: absolute;'',
     ''            width: 100px;'',
     ''            height: 100px;'',
     ''            border-radius: 50%;'',
     ''            top: 150px;'',
     ''            left: 150px;'',
     ''            display: flex;'',
     ''            align-items: center;'',
     ''            justify-content: center;'',
     ''            background: rgba(255,255,255,0.9);'',
     ''            border: 1px solid #333;'',
     ''        }'',
     ''    '']"

text \<open>The class as the module leaves it after loading.\<close>

definition Harmon_class :: "string \<Rightarrow> HarmonStoryCircle" where
  "Harmon_class dn =
     \<lparr>STORY_STEPS = Harmon_STORY_STEPS, CSS_TEMPLATE = Harmon_CSS_TEMPLATE,
      HarmonStoryCircle.display_name = dn\<rparr>"

text \<open>The values that the Story Circle stores in its analysis dictionaries.\<close>

datatype hval = HBool bool | HStr string | HList "hval list" | HDict "(string \<times> hval) list"

definition analyze_step :: "HarmonStoryCircle \<Rightarrow> StoryStep \<Rightarrow> string \<Rightarrow> (string \<times> hval) list" where
  "analyze_step self step text =
     [(''presence'', HBool True),
      (''strength'', HStr ''medium''),
      (''suggestions'', HList []),
      (''criteria_met'', HList (map HStr (analysis_criteria step)))]"

definition evaluate_overall_structure :: "HarmonStoryCircle \<Rightarrow> string \<Rightarrow> (string \<times> hval) list" where
  "evaluate_overall_structure self text =
     [(''circle_completion'', HBool True),
      (''balance'', HStr ''well_balanced''),
      (''suggestions'', HList [])]"

definition calculate_step_position :: "HarmonStoryCircle \<Rightarrow> int \<Rightarrow> int \<Rightarrow> real \<times> real" where
  "calculate_step_position self step_number radius =
     (let angle = radians (of_int ((step_number - 1) * 45 - 90));
          x = of_int radius * cos angle;
          y = of_int radius * sin angle
      in (x, y))"

text \<open>The six lines that one pass of the loop of \<^verbatim>\<open>visualize\<close> appends.\<close>

definition Harmon_step_parts :: "(real \<Rightarrow> string) \<Rightarrow> HarmonStoryCircle \<Rightarrow> StoryStep \<Rightarrow> string list" where
  "Harmon_step_parts float_str self step =
     (let (x, y) = calculate_step_position self (StoryStep.number step) 150;
          angle = (StoryStep.number step - 1) * 45 - 90
      in [''<div class='step step-'' @ str_int (StoryStep.number step) @ [CHR 0x27] @ '' style=''
            @ [CHR 0x27],
          ''transform: rotate('' @ str_int angle @ ''deg) translate('' @ float_str x @ ''px, ''
            @ float_str y @ ''px) rotate(-'' @ str_int angle @ ''deg);'',
          ''color: '' @ StoryStep.color step @ '';'>'',
          ''<div class='step-number'>'' @ str_int (StoryStep.number step) @ ''</div>'',
          ''<div class='step-name'>'' @ StoryStep.name step @ ''</div>'',
          ''</div>''])"

definition Harmon_visualize :: "(real \<Rightarrow> string) \<Rightarrow> HarmonStoryCircle \<Rightarrow> 'a \<Rightarrow> string" where
  "Harmon_visualize float_str self analysis_result =
     (let html_parts =
            [''<h1>'' @
             [CHR 0xD0, CHR 0xA1, CHR 0xD1, CHR 0x8E, CHR 0xD0, CHR 0xB6, CHR 0xD0, CHR 0xB5,
              CHR 0xD1, CHR 0x82, CHR 0xD0, CHR 0xBD, CHR 0xD1, CHR 0x8B, CHR 0xD0, CHR 0xB9] @
             '' '' @
             [CHR 0xD0, CHR 0xBA, CHR 0xD1, CHR 0x80, CHR 0xD1, CHR 0x83, CHR 0xD0, CHR 0xB3] @
             '' ('' @ [CHR 0xD0, CHR 0x94, CHR 0xD1, CHR 0x8D, CHR 0xD0, CHR 0xBD] @ '' '' @
             [CHR 0xD0, CHR 0xA5, CHR 0xD0, CHR 0xB0, CHR 0xD1, CHR 0x80, CHR 0xD0, CHR 0xBC,
              CHR 0xD0, CHR 0xBE, CHR 0xD0, CHR 0xBD] @ '')</h1>'',
             ''<div class='harmon-circle'>''];
          html_parts = foldl (\<lambda>parts step. parts @ Harmon_step_parts float_str self step)
                         html_parts (STORY_STEPS self);
          html_parts = html_parts @
            [''<div class='circle-center'>'',
             ''Story<br>Circle'',
             ''</div>'',
             ''</div>'',
             ''<style>'' @ HarmonStoryCircle.CSS_TEMPLATE self @ ''</style>'']
      in join ''\<newline>'' html_parts)"

definition Harmon_structure_type :: "HarmonStoryCircle \<Rightarrow> StructureType" where
  "Harmon_structure_type self = HARMON_CIRCLE"

definition Harmon_analyze ::
  "(real \<Rightarrow> string) \<Rightarrow> HarmonStoryCircle \<Rightarrow> string \<Rightarrow> (string \<times> hval) list AnalysisResult" where
  "Harmon_analyze float_str self text =
     (let structure =
            [(''steps'',
              HDict (foldl (\<lambda>d step. AList.update (StoryStep.name step)
                                        (HDict (analyze_step self step text)) d)
                       [] (STORY_STEPS self))),
             (''overall_evaluation'', HDict (evaluate_overall_structure self text))];
          metadata =
            \<lparr>model_name = ''gpt-4'', model_version = ''1.0'', confidence = 85 / 100,
             processing_time = 1, structure_type = Harmon_structure_type self,
             display_name = HarmonStoryCircle.display_name self\<rparr>;
          summary = ''Analysis of narrative structure using Harmon's Story Circle'';
          visualization = Harmon_visualize float_str self structure
      in \<lparr>structure = structure, summary = summary, visualization = visualization,
          metadata = metadata\<rparr>)"

text \<open>The loop of \<^verbatim>\<open>get_prompt\<close>: the state is the list built so far and \<^verbatim>\<open>current_act\<close>.\<close>

definition Harmon_prompt_step ::
  "string list \<times> string option \<Rightarrow> StoryStep \<Rightarrow> string list \<times> string option" where
  "Harmon_prompt_step st step =
     (let (prompt_parts, current_act) = st;
          (prompt_parts, current_act) =
            (if Some (StoryStep.act step) \<noteq> current_act
             then (prompt_parts @ [''\<newline>Act - '' @ StoryStep.act step @ '':''],
                   Some (StoryStep.act step))
             else (prompt_parts, current_act));
          prompt_parts = prompt_parts @
            [str_int (StoryStep.number step) @ ''. '' @ StoryStep.name step @ '' ('' @
             StoryStep.description step @ '')''];
          prompt_parts = prompt_parts @
            [''   Criteria: '' @ join '', '' (analysis_criteria step)]
      in (prompt_parts, current_act))"

definition Harmon_get_prompt :: "HarmonStoryCircle \<Rightarrow> string" where
  "Harmon_get_prompt self =
     (let prompt_parts =
            [''Analyze the following narrative structure based on Dan Harmon's Story Circle:\<newline>'']
      in join ''\<newline>''
           (fst (foldl Harmon_prompt_step (prompt_parts, None) (STORY_STEPS self))))"

text \<open>
  The public methods as calls on the class state: each returns the state it leaves behind
  and its result. No method of the module assigns to a class attribute.
\<close>

datatype Harmon_call =
  HAnalyze string | HVisualize "(string \<times> hval) list" | HGetPrompt

datatype Harmon_ret =
  HResult "(string \<times> hval) list AnalysisResult" | HHtml string | HPrompt string

fun Harmon_exec ::
  "(real \<Rightarrow> string) \<Rightarrow> HarmonStoryCircle \<Rightarrow> Harmon_call \<Rightarrow> HarmonStoryCircle \<times> Harmon_ret" where
  "Harmon_exec float_str self (HAnalyze text) = (self, HResult (Harmon_analyze float_str self text))"
| "Harmon_exec float_str self (HVisualize d) = (self, HHtml (Harmon_visualize float_str self d))"
| "Harmon_exec float_str self HGetPrompt = (self, HPrompt (Harmon_get_prompt self))"

definition Harmon_run ::
  "(real \<Rightarrow> string) \<Rightarrow> HarmonStoryCircle \<Rightarrow> Harmon_call list \<Rightarrow> HarmonStoryCircle" where
  "Harmon_run float_str self calls = foldl (\<lambda>s c. fst (Harmon_exec float_str s c)) self calls"


section \<open>vogler\_hero\_journey.py\<close>

datatype WorldType = ORDINARY | SPECIAL

fun WorldType_name :: "WorldType \<Rightarrow> string" where
  "WorldType_name ORDINARY = ''ORDINARY''"
| "WorldType_name SPECIAL = ''SPECIAL''"

fun WorldType_value :: "WorldType \<Rightarrow> string" where
  "WorldType_value ORDINARY = ''Ordinary World''"
| "WorldType_value SPECIAL = ''Special World''"

datatype ActType = BEGINNING | MIDDLE | END

fun ActType_value :: "ActType \<Rightarrow> string" where
  "ActType_value BEGINNING = ''Beginning''"
| "ActType_value MIDDLE = ''Middle''"
| "ActType_value END = ''End''"

datatype StageElement = StageElement
  (name: string) (description: string) (keywords': "string list") (importance: int)
  (world_type: WorldType)

datatype Stage = Stage
  (number: int) (name: string) (description: string) (act: ActType) (world: WorldType)
  (elements: "StageElement list") (angle: int) (color: string)

record StageAnalysis =
  elements_present :: "(string \<times> bool) list"
  strengths :: "string list"
  weaknesses :: "string list"
  score :: real

text \<open>
  The class attributes read through \<^verbatim>\<open>self\<close>. The two attributes declared
  \<^verbatim>\<open>Final\<close> are constants.
\<close>

record VoglerHeroJourney =
  STAGES :: "Stage list"
  CSS_TEMPLATE :: string
  display_name :: string

definition TOTAL_STAGES :: nat where "TOTAL_STAGES = 12"
definition CIRCLE_DEGREES :: nat where "CIRCLE_DEGREES = 360"

definition Vogler_STAGES :: "Stage list" where
  "Vogler_STAGES =
   [Stage 1 ''Ordinary World'' ''Hero's starting point'' BEGINNING ORDINARY
      [StageElement ''Initial State'' ''Hero's life before the adventure''
         [''normal'', ''routine'', ''ordinary'', ''everyday''] 9 ORDINARY,
       StageElement ''Character Establishment'' ''Introduction of hero's character''
         [''personality'', ''traits'', ''background'', ''life''] 8 ORDINARY]
      0 ''#e6f3ff'']"

text \<open>The triple-quoted literal, line by line: its lines are joined by newlines.\<close>

definition Vogler_CSS_TEMPLATE :: string where
  "Vogler_CSS_TEMPLATE = join ''\<newline>''
    ['''',
     ''        .vogler-journey {'',
     ''            width: 800px;'',
     ''            height: 800px;'',
     ''            position: relative;'',
     ''            margin: 50px auto;'',
     ''        }'',
     ''        .journey-circle {'',
     ''            width: 100%;'',
     ''            height: 100%;'',
     ''            border-radius: 50%;'',
     ''            border: 3px solid #333;'',
     ''            position: absolute;'',
     ''            background: radial-gradient(circle, #fff, #f5f5f5);'',
     ''        }'',
     ''        .stage {'',
     ''            position: absolute;'',
     ''            width: 120px;'',
     ''            text-align: center;'',
     ''            left: 50%;'',
     ''            top: 50%;'',
     ''            font-size: 14px;'',
     ''            line-height: 1.3;'',
     ''            transform-origin: 0 0;'',
     ''            transition: all 0.3s ease;'',
     ''        }'',
     ''        .stage-content {'',
     ''            background: rgba(255, 255, 255, 0.9);'',
     ''            padding: 10px;'',
     ''            border-radius: 8px;'',
     ''            box-shadow: 0 2px 5px rgba(0,0,0,0.1);'',
     ''            transition: all 0.3s ease;'',
     ''        }'',
     ''        .stage-content:hover {'',
     ''            transform: scale(1.1);'',
     ''            box-shadow: 0 5px 15px rgba(0,0,0,0.2);'',
     ''        }'',
     ''        .stage-number {'',
     ''            font-weight: bold;'',
     ''            color: #666;'',
     ''        }'',
     ''        .stage-name {'',
     ''            font-weight: bold;'',
     ''            margin: 5px 0;'',
     ''        }'',
     ''        .stage-description {'',
     ''            font-size: 12px;'',
     ''            color: #666;'',
     ''        }'',
     ''        .world-indicator {'',
     ''            width: 10px;'',
     ''            height: 10px;'',
     ''            border-radius: 50%;'',
     ''            display: inline-block;'',
     ''            margin-right: 5px;'',
     ''        }'',
     ''        .ordinary-world {'',
     ''            background-color: #4CAF50;'',
     ''        }'',
     ''        .special-world {'',
     ''            background-color: #2196F3;'',
     ''        }'',
     ''        .connection-line {'',
     ''            position: absolute;'',
     ''            height: 2px;'',
     ''            background: #ddd;'',
     ''            transform-origin: 0 0;'',
     ''        }'',
     ''    '']"

text \<open>The class as the module leaves it after loading.\<close>

definition Vogler_class :: "string \<Rightarrow> VoglerHeroJourney" where
  "Vogler_class dn =
     \<lparr>STAGES = Vogler_STAGES, CSS_TEMPLATE = Vogler_CSS_TEMPLATE,
      VoglerHeroJourney.display_name = dn\<rparr>"

text \<open>
  The dictionaries with fixed keys are records. An entry of \<^verbatim>\<open>analysis["stages"]\<close> is
  either the \<^verbatim>\<open>StageAnalysis\<close> object that \<^verbatim>\<open>analyze\<close> stores there or a dictionary
  of numbers, which is what \<^verbatim>\<open>visualize\<close> reads with \<^verbatim>\<open>.get("score", 0)\<close>.
\<close>

datatype stage_entry = AnalysisObj StageAnalysis | AnalysisDict "(string \<times> real) list"

record transitions_dict =
  clarity :: real
  impact :: real
  smoothness :: real

record world_dict =
  strength :: real
  balance :: real
  transitions :: transitions_dict

record worlds_dict =
  ordinary :: world_dict
  special :: world_dict

record overall_dict =
  completeness :: real
  balance :: real
  flow :: real

record analysis_dict =
  stages :: "(string \<times> stage_entry) list"
  worlds :: worlds_dict
  overall :: overall_dict

text \<open>Sequencing of calls that may raise: the first exception is the outcome.\<close>

definition and_then :: "py_error + 'a \<Rightarrow> ('a \<Rightarrow> py_error + 'b) \<Rightarrow> py_error + 'b" where
  "and_then m f = (case m of Inl e \<Rightarrow> Inl e | Inr x \<Rightarrow> f x)"

fun try_map :: "('a \<Rightarrow> py_error + 'b) \<Rightarrow> 'a list \<Rightarrow> py_error + 'b list" where
  "try_map f [] = Inr []"
| "try_map f (x # xs) = and_then (f x) (\<lambda>y. and_then (try_map f xs) (\<lambda>ys. Inr (y # ys)))"

text \<open>\<^verbatim>\<open>a / b\<close> on numbers.\<close>

definition py_div :: "real \<Rightarrow> real \<Rightarrow> py_error + real" where
  "py_div a b = (if b = 0 then Inl ZeroDivisionError else Inr (a / b))"

text \<open>\<^verbatim>\<open>int(x)\<close> on a float: truncation towards zero.\<close>

definition py_int :: "real \<Rightarrow> int" where
  "py_int x = (if 0 \<le> x then \<lfloor>x\<rfloor> else \<lceil>x\<rceil>)"

text \<open>
  The key \<^verbatim>\<open>stage.name.lower().replace(" ", "_")\<close>, which the source writes out at each
  of its three uses.
\<close>

definition stage_key :: "(string \<Rightarrow> string) \<Rightarrow> Stage \<Rightarrow> string" where
  "stage_key unicode_lower stage =
     replace_char (CHR '' '') (CHR ''_'') (lower unicode_lower (Stage.name stage))"

definition split_into_stages ::
  "(string \<Rightarrow> string) \<Rightarrow> VoglerHeroJourney \<Rightarrow> string \<Rightarrow> (string \<times> string) list" where
  "split_into_stages unicode_lower self text =
     (let total_length = length text;
          stage_length = total_length div TOTAL_STAGES
      in foldl (\<lambda>stages_content (i, stage).
                  let start = i * stage_length;
                      end = (if i < TOTAL_STAGES - 1 then (i + 1) * stage_length
                             else total_length)
                  in AList.update (stage_key unicode_lower stage) (slice text start end)
                       stages_content)
           [] (enumerate 0 (STAGES self)))"

text \<open>One pass of the loop of \<^verbatim>\<open>_analyze_stage\<close> over the elements of the stage.\<close>

definition analyze_element ::
  "(string \<Rightarrow> string) \<Rightarrow> string \<Rightarrow> (string \<times> bool) list \<times> string list \<times> string list \<Rightarrow> StageElement
   \<Rightarrow> (string \<times> bool) list \<times> string list \<times> string list" where
  "analyze_element unicode_lower stage_content st element =
     (let (elements_present, strengths, weaknesses) = st;
          is_present =
            list_ex (\<lambda>keyword. contains keyword (lower unicode_lower stage_content))
                         (keywords' element);
          elements_present = AList.update (StageElement.name element) is_present elements_present
      in if is_present
         then (elements_present,
               strengths @ [StageElement.name element @ '' is well established''],
               weaknesses)
         else (elements_present,
               strengths,
               weaknesses @ [StageElement.name element @ '' needs more development'']))"

definition analyze_stage ::
  "(string \<Rightarrow> string) \<Rightarrow> VoglerHeroJourney \<Rightarrow> Stage \<Rightarrow> (string \<times> string) list \<Rightarrow> py_error + StageAnalysis" where
  "analyze_stage unicode_lower self stage content =
     (let stage_content = dict_get content (stage_key unicode_lower stage) '''';
          (elements_present, strengths, weaknesses) =
            foldl (analyze_element unicode_lower stage_content) ([], [], []) (elements stage)
      in and_then
           (py_div (real (length (filter snd elements_present)))
              (real (length (elements stage))))
           (\<lambda>score. Inr \<lparr>elements_present = elements_present, strengths = strengths,
                          weaknesses = weaknesses, score = score\<rparr>))"

definition analyze_transitions ::
  "VoglerHeroJourney \<Rightarrow> WorldType \<Rightarrow> (string \<times> string) list \<Rightarrow> transitions_dict" where
  "analyze_transitions self world_type' content =
     \<lparr>clarity = 8 / 10, impact = 7 / 10, smoothness = 9 / 10\<rparr>"

definition analyze_world ::
  "(string \<Rightarrow> string) \<Rightarrow> VoglerHeroJourney \<Rightarrow> WorldType \<Rightarrow> (string \<times> string) list \<Rightarrow> py_error + world_dict" where
  "analyze_world unicode_lower self world_type' content =
     (let relevant_stages = filter (\<lambda>s. world s = world_type') (STAGES self);
          world_content =
            join '' '' (map (\<lambda>s. dict_get content (stage_key unicode_lower s) '''')
                          relevant_stages)
      in and_then (py_div (real (length relevant_stages)) (real (length (STAGES self))))
           (\<lambda>b. Inr \<lparr>strength = real (length world_content) / 1000, world_dict.balance = b,
                      transitions = analyze_transitions self world_type' content\<rparr>))"

definition get_stage_analyses ::
  "(string \<Rightarrow> string) \<Rightarrow> VoglerHeroJourney \<Rightarrow> (string \<times> string) list \<Rightarrow> py_error + StageAnalysis list" where
  "get_stage_analyses unicode_lower self content =
     try_map (\<lambda>stage. analyze_stage unicode_lower self stage content) (STAGES self)"

definition analyze_world_balance ::
  "(string \<Rightarrow> string) \<Rightarrow> VoglerHeroJourney \<Rightarrow> (string \<times> string) list \<Rightarrow> py_error + real" where
  "analyze_world_balance unicode_lower self content =
     and_then (analyze_world unicode_lower self ORDINARY content) (\<lambda>ordinary_world.
     and_then (analyze_world unicode_lower self SPECIAL content) (\<lambda>special_world.
       py_div (min (strength ordinary_world) (strength special_world))
              (max (strength ordinary_world) (strength special_world))))"

definition analyze_narrative_flow :: "VoglerHeroJourney \<Rightarrow> (string \<times> string) list \<Rightarrow> real" where
  "analyze_narrative_flow self content = 85 / 100"

definition analyze_overall_structure ::
  "(string \<Rightarrow> string) \<Rightarrow> VoglerHeroJourney \<Rightarrow> (string \<times> string) list \<Rightarrow> py_error + overall_dict" where
  "analyze_overall_structure unicode_lower self content =
     and_then (get_stage_analyses unicode_lower self content) (\<lambda>analyses.
     and_then (py_div (sum_list (map score analyses)) (real (length (STAGES self)))) (\<lambda>c.
     and_then (analyze_world_balance unicode_lower self content) (\<lambda>b.
       Inr \<lparr>completeness = c, overall_dict.balance = b,
            flow = analyze_narrative_flow self content\<rparr>)))"

definition get_color_by_score :: "VoglerHeroJourney \<Rightarrow> real \<Rightarrow> string" where
  "get_color_by_score self score' =
     (let green = py_int (score' * 255)
      in ''rgb(200, '' @ str_int green @ '', 200)'')"

text \<open>
  One pass of the loop of \<^verbatim>\<open>visualize\<close>: the block appended for a stage. A
  \<^verbatim>\<open>StageAnalysis\<close> object has no method \<^verbatim>\<open>get\<close>.
\<close>

definition Vogler_stage_part ::
  "(real \<Rightarrow> string) \<Rightarrow> (string \<Rightarrow> string) \<Rightarrow> VoglerHeroJourney \<Rightarrow> 'a analysis_dict_scheme \<Rightarrow> Stage
   \<Rightarrow> py_error + string" where
  "Vogler_stage_part float_str unicode_lower self analysis_result stage =
     (let angle = Stage.angle stage;
          radius = 400;
          x = radius * cos (radians (of_int angle));
          y = radius * sin (radians (of_int angle));
          stage_analysis = dict_get (stages analysis_result) (Stage.name stage) (AnalysisDict [])
      in and_then
           (case stage_analysis of
              AnalysisObj obj \<Rightarrow> Inl AttributeError
            | AnalysisDict d \<Rightarrow> Inr (dict_get d ''score'' 0))
           (\<lambda>score. Inr (
              ''\<newline>'' @
              ''                <div class='stage' style='\<newline>'' @
              ''                    transform: translate('' @ float_str x @ ''px, '' @ float_str y @
                ''px) rotate('' @ str_int angle @ ''deg);\<newline>'' @
              ''                    background-color: '' @ get_color_by_score self score @
                '';\<newline>'' @
              ''                '>\<newline>'' @
              ''                    <div class='stage-content'>\<newline>'' @
              ''                        <div class='stage-number'>'' @
                str_int (Stage.number stage) @ ''</div>\<newline>'' @
              ''                        <div class='stage-name'>'' @ Stage.name stage @
                ''</div>\<newline>'' @
              ''                        <div class='world-indicator '' @
                lower unicode_lower (WorldType_name (world stage)) @ ''-world'></div>\<newline>'' @
              ''                        <div class='stage-description'>'' @
                Stage.description stage @ ''</div>\<newline>'' @
              ''                    </div>\<newline>'' @
              ''                </div>\<newline>'' @
              ''            '')))"

definition Vogler_visualize ::
  "(real \<Rightarrow> string) \<Rightarrow> (string \<Rightarrow> string) \<Rightarrow> VoglerHeroJourney \<Rightarrow> 'a analysis_dict_scheme \<Rightarrow> py_error + string" where
  "Vogler_visualize float_str unicode_lower self analysis_result =
     (let html_parts = [''<div class='vogler-journey'>'', ''<div class='journey-circle'>'']
      in and_then
           (try_map (Vogler_stage_part float_str unicode_lower self analysis_result)
              (STAGES self))
           (\<lambda>stage_parts.
              Inr (join ''\<newline>''
                     (html_parts @ stage_parts @
                      [''</div>'', ''</div>'',
                       ''<style>'' @ VoglerHeroJourney.CSS_TEMPLATE self @ ''</style>'']))))"

definition Vogler_structure_type :: "VoglerHeroJourney \<Rightarrow> StructureType" where
  "Vogler_structure_type self = VOGLER_HERO_JOURNEY"

text \<open>The loop of \<^verbatim>\<open>analyze\<close> that fills \<^verbatim>\<open>analysis["stages"]\<close>.\<close>

fun analyze_stages ::
  "(string \<Rightarrow> string) \<Rightarrow> VoglerHeroJourney \<Rightarrow> (string \<times> string) list \<Rightarrow> Stage list \<Rightarrow> (string \<times> stage_entry) list
   \<Rightarrow> py_error + (string \<times> stage_entry) list" where
  "analyze_stages unicode_lower self content [] d = Inr d"
| "analyze_stages unicode_lower self content (stage # rest) d =
     and_then (analyze_stage unicode_lower self stage content)
       (\<lambda>a. analyze_stages unicode_lower self content rest
              (AList.update (Stage.name stage) (AnalysisObj a) d))"

definition Vogler_analyze ::
  "(real \<Rightarrow> string) \<Rightarrow> (string \<Rightarrow> string) \<Rightarrow> VoglerHeroJourney \<Rightarrow> string \<Rightarrow> py_error + analysis_dict AnalysisResult" where
  "Vogler_analyze float_str unicode_lower self text =
     (let formatted_structure = split_into_stages unicode_lower self text
      in and_then (analyze_world unicode_lower self ORDINARY formatted_structure) (\<lambda>ordinary_world.
         and_then (analyze_world unicode_lower self SPECIAL formatted_structure) (\<lambda>special_world.
         and_then (analyze_stages unicode_lower self formatted_structure (STAGES self) [])
           (\<lambda>stage_dict.
         and_then (analyze_overall_structure unicode_lower self formatted_structure)
           (\<lambda>overall_structure.
           let analysis = \<lparr>stages = stage_dict,
                            worlds = \<lparr>ordinary = ordinary_world, special = special_world\<rparr>,
                            overall = overall_structure\<rparr>;
               metadata =
                 \<lparr>model_name = ''gpt-4'', model_version = ''1.0'', confidence = 85 / 100,
                  processing_time = 1, structure_type = Vogler_structure_type self,
                  display_name = VoglerHeroJourney.display_name self\<rparr>;
               summary = ''Analysis of narrative using Vogler's Hero's Journey''
           in and_then (Vogler_visualize float_str unicode_lower self analysis) (\<lambda>visualization.
                Inr \<lparr>structure = analysis, summary = summary, visualization = visualization,
                     metadata = metadata\<rparr>))))))"

text \<open>
  The loop of \<^verbatim>\<open>get_prompt\<close>: the state is the list built so far, \<^verbatim>\<open>current_act\<close>
  and \<^verbatim>\<open>current_world\<close>.
\<close>

definition Vogler_prompt_step ::
  "string list \<times> ActType option \<times> WorldType option \<Rightarrow> Stage
   \<Rightarrow> string list \<times> ActType option \<times> WorldType option" where
  "Vogler_prompt_step st stage =
     (let (prompt_parts, current_act, current_world) = st;
          (prompt_parts, current_act) =
            (if Some (Stage.act stage) \<noteq> current_act
             then (prompt_parts @ [''\<newline>Act - '' @ ActType_value (Stage.act stage) @ '':''],
                   Some (Stage.act stage))
             else (prompt_parts, current_act));
          (prompt_parts, current_world) =
            (if Some (world stage) \<noteq> current_world
             then (prompt_parts @ [''\<newline>'' @ WorldType_value (world stage) @ '':''],
                   Some (world stage))
             else (prompt_parts, current_world));
          prompt_parts = prompt_parts @
            [''\<newline>'' @ str_int (Stage.number stage) @ ''. '' @ Stage.name stage];
          prompt_parts = prompt_parts @ [''   Description: '' @ Stage.description stage];
          prompt_parts = prompt_parts @
            map (\<lambda>element. ''   - '' @ StageElement.name element @ '' (Importance: '' @
                            str_int (importance element) @ ''/10)'')
              (elements stage)
      in (prompt_parts, current_act, current_world))"

definition Vogler_get_prompt :: "VoglerHeroJourney \<Rightarrow> string" where
  "Vogler_get_prompt self =
     (let prompt_parts =
            [''Analyze the following narrative structure based on Chris Vogler's Hero's Journey:\<newline>'']
      in join ''\<newline>''
           (fst (foldl Vogler_prompt_step (prompt_parts, None, None) (STAGES self))))"

text \<open>The public methods as calls on the class state, as for the Story Circle.\<close>

datatype Vogler_call = VAnalyze string | VVisualize analysis_dict | VGetPrompt

datatype Vogler_ret =
  VResult "py_error + analysis_dict AnalysisResult" | VHtml "py_error + string" | VPrompt string

fun Vogler_exec ::
  "(real \<Rightarrow> string) \<Rightarrow> (string \<Rightarrow> string) \<Rightarrow> VoglerHeroJourney \<Rightarrow> Vogler_call \<Rightarrow> VoglerHeroJourney \<times> Vogler_ret" where
  "Vogler_exec float_str unicode_lower self (VAnalyze text) =
     (self, VResult (Vogler_analyze float_str unicode_lower self text))"
| "Vogler_exec float_str unicode_lower self (VVisualize d) =
     (self, VHtml (Vogler_visualize float_str unicode_lower self d))"
| "Vogler_exec float_str unicode_lower self VGetPrompt = (self, VPrompt (Vogler_get_prompt self))"

definition Vogler_run ::
  "(real \<Rightarrow> string) \<Rightarrow> (string \<Rightarrow> string) \<Rightarrow> VoglerHeroJourney \<Rightarrow> Vogler_call list \<Rightarrow> VoglerHeroJourney" where
  "Vogler_run float_str unicode_lower self calls =
     foldl (\<lambda>s c. fst (Vogler_exec float_str unicode_lower s c)) self calls"

section \<open>Notions used to state the properties\<close>

text \<open>
  A keyword occurs case-insensitively in a window when, after folding both to lower case,
  the keyword is a substring of the window.
\<close>

definition occurs_ci :: "(string \<Rightarrow> string) \<Rightarrow> string \<Rightarrow> string \<Rightarrow> bool" where
  "occurs_ci unicode_lower keyword window =
     (\<exists>a b. lower unicode_lower window = a @ lower unicode_lower keyword @ b)"

text \<open>
  The characters of the text that Python prints for a float: digits, the point, the
  exponent with its sign, and the letters of \<^verbatim>\<open>inf\<close> and \<^verbatim>\<open>nan\<close>.
\<close>

definition float_chars :: "(real \<Rightarrow> string) \<Rightarrow> bool" where
  "float_chars float_str = (\<forall>r. \<forall>c \<in> set (float_str r). c \<in> set ''0123456789.e+-infa'')"

text \<open>
  For closed examples on ASCII text, where the folding of other text is not consulted: a
  folding that leaves the text as it is.
\<close>

definition plain_lower :: "string \<Rightarrow> string" where
  "plain_lower s = s"

text \<open>A printer with these characters, for closed examples: every float is printed as 0.0.\<close>

definition zero_float_str :: "real \<Rightarrow> string" where
  "zero_float_str r = ''0.0''"

section \<open>Helper facts\<close>

subsection \<open>Geometry and class state\<close>

lemma radians_minus_90: "radians (- 90) = - (pi / 2)"
  by (simp add: radians_def)

lemma scaled_point_on_circle: "(r * cos a)\<^sup>2 + (r * sin a)\<^sup>2 = r\<^sup>2" for r a :: real
proof -
  have "(r * cos a)\<^sup>2 + (r * sin a)\<^sup>2 = r\<^sup>2 * ((cos a)\<^sup>2 + (sin a)\<^sup>2)"
    by (simp only: power_mult_distrib distrib_left)
  then show ?thesis by simp
qed

text \<open>No call changes the class state.\<close>

lemma Harmon_exec_state: "fst (Harmon_exec float_str self c) = self"
  by (cases c) simp_all

lemma Harmon_run_state: "Harmon_run float_str self calls = self"
  unfolding Harmon_run_def by (induction calls) (simp_all add: Harmon_exec_state)

lemma Vogler_exec_state: "fst (Vogler_exec float_str unicode_lower self c) = self"
  by (cases c) simp_all

lemma Vogler_run_state: "Vogler_run float_str unicode_lower self calls = self"
  unfolding Vogler_run_def by (induction calls) (simp_all add: Vogler_exec_state)

subsection \<open>The Hero's Journey on the catalog of the module\<close>

lemmas Vogler_eval =
  Vogler_class_def Vogler_STAGES_def split_into_stages_def analyze_world_def TOTAL_STAGES_def
  slice_def stage_key_def lower_def is_ascii_def lower_char_def replace_char_def py_div_def
  and_then_def
  analyze_stage_def analyze_element_def analyze_overall_structure_def get_stage_analyses_def
  analyze_world_balance_def Let_def dict_get_def

text \<open>
  With the catalog as the module defines it, the partitioner returns one window, the first
  twelfth of the text, and the balance is computed only for a text of twelve characters or
  more.
\<close>

lemma split_into_stages_catalog:
  "split_into_stages unicode_lower (Vogler_class dn) text =
     [(''ordinary_world'', take (length text div 12) text)]"
  by (simp add: Vogler_eval)

lemma analyze_world_balance_catalog:
  "analyze_world_balance unicode_lower (Vogler_class dn) (split_into_stages unicode_lower (Vogler_class dn) text) =
     (if length text < 12 then Inl ZeroDivisionError else Inr 0)"
  by (simp add: split_into_stages_catalog) (simp add: Vogler_eval div_eq_0_iff)

text \<open>The result of the Story Circle carries the visualization of its own structure.\<close>

lemma Harmon_analyze_consistent:
  "visualization (Harmon_analyze float_str self text) =
     Harmon_visualize float_str self (structure (Harmon_analyze float_str self text))"
  by (simp add: Harmon_analyze_def Let_def)


subsection \<open>Keyword matching\<close>

text \<open>
  \<^const>\<open>starts_with\<close> and \<^const>\<open>contains\<close> are the prefix and the substring test.
\<close>

lemma starts_with_iff: "starts_with p s \<longleftrightarrow> (\<exists>t. s = p @ t)"
  by (induction p s rule: starts_with.induct) auto

lemma contains_iff: "contains p s \<longleftrightarrow> (\<exists>a b. s = a @ p @ b)"
proof (induction s)
  case Nil
  then show ?case by simp
next
  case (Cons c s)
  show ?case
  proof
    assume "contains p (c # s)"
    then consider "starts_with p (c # s)" | "contains p s"
      by (auto split: if_splits)
    then show "\<exists>a b. c # s = a @ p @ b"
    proof cases
      case 1
      then obtain t where "c # s = p @ t" by (auto simp: starts_with_iff)
      then have "c # s = [] @ p @ t" by simp
      then show ?thesis by blast
    next
      case 2
      with Cons.IH obtain a b where "s = a @ p @ b" by blast
      then have "c # s = (c # a) @ p @ b" by simp
      then show ?thesis by blast
    qed
  next
    assume "\<exists>a b. c # s = a @ p @ b"
    then obtain a b where ab: "c # s = a @ p @ b" by blast
    show "contains p (c # s)"
    proof (cases a)
      case Nil
      with ab have "starts_with p (c # s)" by (auto simp: starts_with_iff)
      then show ?thesis by simp
    next
      case (Cons x a')
      with ab have "s = a' @ p @ b" by simp
      with Cons.IH have "contains p s" by blast
      then show ?thesis by simp
    qed
  qed
qed

lemma occurs_ci_code:
  "occurs_ci unicode_lower keyword window =
     contains (lower unicode_lower keyword) (lower unicode_lower window)"
  by (simp add: occurs_ci_def contains_iff)

text \<open>A new key is appended to a dictionary.\<close>

lemma update_fresh: "k \<notin> fst ` set al \<Longrightarrow> AList.update k v al = al @ [(k, v)]"
  by (induction al) auto

text \<open>
  The loop of \<^verbatim>\<open>_analyze_stage\<close> over elements with distinct names, and the result
  for a stage that has elements.
\<close>

lemma foldl_analyze_element:
  assumes "distinct (map StageElement.name es)"
    and "\<forall>e \<in> set es. StageElement.name e \<notin> fst ` set ep"
  shows "foldl (analyze_element unicode_lower w) (ep, st, wk) es =
    (ep @ map (\<lambda>e. (StageElement.name e,
                     list_ex (\<lambda>k. contains k (lower unicode_lower w)) (keywords' e))) es,
     st @ map (\<lambda>e. StageElement.name e @ '' is well established'')
            (filter (\<lambda>e. list_ex (\<lambda>k. contains k (lower unicode_lower w)) (keywords' e)) es),
     wk @ map (\<lambda>e. StageElement.name e @ '' needs more development'')
            (filter (\<lambda>e. \<not> list_ex (\<lambda>k. contains k (lower unicode_lower w)) (keywords' e)) es))"
  using assms
proof (induction es arbitrary: ep st wk)
  case Nil
  then show ?case by simp
next
  case (Cons e es)
  have fresh: "AList.update (StageElement.name e) v ep = ep @ [(StageElement.name e, v)]" for v
    using Cons.prems(2) by (simp add: update_fresh)
  have later: "\<forall>e' \<in> set es. StageElement.name e' \<notin> fst ` set (ep @ [(StageElement.name e, v)])" for v
    using Cons.prems by (fastforce simp: image_iff)
  have d: "distinct (map StageElement.name es)"
    using Cons.prems(1) by simp
  have step: "analyze_element unicode_lower w (ep, st, wk) e =
      (if list_ex (\<lambda>k. contains k (lower unicode_lower w)) (keywords' e)
       then (ep @ [(StageElement.name e, True)],
             st @ [StageElement.name e @ '' is well established''], wk)
       else (ep @ [(StageElement.name e, False)], st,
             wk @ [StageElement.name e @ '' needs more development'']))"
    by (simp add: analyze_element_def fresh)
  show ?case
    by (simp add: step Cons.IH [OF d later])
qed

lemma analyze_stage_wf:
  assumes "elements stage \<noteq> []" and "distinct (map StageElement.name (elements stage))"
  shows "analyze_stage unicode_lower self stage content =
    Inr \<lparr>elements_present =
           map (\<lambda>e. (StageElement.name e,
                      list_ex (\<lambda>k. contains k (lower unicode_lower (dict_get content (stage_key unicode_lower stage) '''')))
                        (keywords' e))) (elements stage),
         strengths =
           map (\<lambda>e. StageElement.name e @ '' is well established'')
             (filter (\<lambda>e. list_ex (\<lambda>k. contains k (lower unicode_lower (dict_get content (stage_key unicode_lower stage) '''')))
                        (keywords' e)) (elements stage)),
         weaknesses =
           map (\<lambda>e. StageElement.name e @ '' needs more development'')
             (filter (\<lambda>e. \<not> list_ex (\<lambda>k. contains k (lower unicode_lower (dict_get content (stage_key unicode_lower stage) '''')))
                        (keywords' e)) (elements stage)),
         score =
           real (length (filter (\<lambda>e. list_ex (\<lambda>k. contains k (lower unicode_lower (dict_get content (stage_key unicode_lower stage) '''')))
                        (keywords' e)) (elements stage)))
           / real (length (elements stage))\<rparr>"
proof -
  have "length (filter snd (map (\<lambda>e. (StageElement.name e, P e)) es)) = length (filter P es)"
    for P and es :: "StageElement list"
    by (induction es) simp_all
  then show ?thesis
    using assms
    by (simp add: analyze_stage_def Let_def foldl_analyze_element py_div_def and_then_def)
qed

text \<open>
  Without elements the score divides by zero, and with a repeated element name the
  dictionary \<^verbatim>\<open>elements_present\<close> keeps one entry for the two elements, so that the
  score is not the share of present elements: here the first of two elements is present
  and the score is 0.
\<close>

lemma analyze_stage_no_elements:
  "elements stage = [] \<Longrightarrow> analyze_stage unicode_lower self stage content = Inl ZeroDivisionError"
  by (simp add: analyze_stage_def py_div_def and_then_def)

lemma analyze_stage_repeated_name:
  "analyze_stage plain_lower (Vogler_class '''')
     (Stage 1 ''Ordinary World'' ''Hero's starting point'' BEGINNING ORDINARY
        [StageElement ''Initial State'' ''Hero's life before the adventure'' [''normal'']
           9 ORDINARY,
         StageElement ''Initial State'' ''Introduction of hero's character'' [''traits'']
           8 ORDINARY]
        0 ''#e6f3ff'')
     [(''ordinary_world'', ''a normal day'')] =
     Inr \<lparr>elements_present = [(''Initial State'', False)],
          strengths = [''Initial State is well established''],
          weaknesses = [''Initial State needs more development''],
          score = 0\<rparr>"
  by (simp add: Vogler_eval)

text \<open>What the proofs use of the stages of the catalog.\<close>

lemma catalog_stage:
  assumes "stage \<in> set (STAGES (Vogler_class dn))"
  shows "elements stage \<noteq> []" and "distinct (map StageElement.name (elements stage))"
    and "\<forall>e \<in> set (elements stage). \<forall>k \<in> set (keywords' e). lower unicode_lower k = k \<and> k \<noteq> []"
  using assms
  by (simp_all add: Vogler_class_def Vogler_STAGES_def lower_def is_ascii_def lower_char_def)


subsection \<open>Counting occurrences in the visualization of the Story Circle\<close>

text \<open>
  Occurrences of a pattern without the separator are counted part by part in a joined
  string, and a part that lacks the first character of the pattern holds none.
\<close>

lemma starts_with_sep: "sep \<notin> set p \<Longrightarrow> starts_with p (a @ sep # b) = starts_with p a"
  by (induction p a rule: starts_with.induct) auto

lemma count_occ_sep:
  assumes "sep \<notin> set p" and "p \<noteq> []"
  shows "count_occ p (a @ sep # b) = count_occ p a + count_occ p b"
proof (induction a)
  case Nil
  from assms show ?case by (cases p) auto
next
  case (Cons c a)
  have "starts_with p ((c # a) @ sep # b) = starts_with p (c # a)"
    using assms(1) by (rule starts_with_sep)
  with Cons assms show ?case by simp
qed

lemma count_occ_join:
  assumes "sep \<notin> set p" and "p \<noteq> []"
  shows "count_occ p (join [sep] parts) = sum_list (map (count_occ p) parts)"
proof (induction "[sep]" parts rule: join.induct)
  case 1
  from assms show ?case by simp
next
  case (2 x)
  show ?case by simp
next
  case (3 x y ys)
  then show ?case using assms by (simp add: count_occ_sep)
qed

lemma count_occ_skip:
  assumes "p \<noteq> []" and "hd p \<notin> set a"
  shows "count_occ p (a @ b) = count_occ p b"
  using assms by (induction a) (cases p; auto)+

lemma foldl_append_parts: "foldl (\<lambda>parts x. parts @ f x) init xs = init @ concat (map f xs)"
  by (induction xs arbitrary: init) simp_all

lemma join_snoc: "ps \<noteq> [] \<Longrightarrow> join sep (ps @ [x]) = join sep ps @ sep @ x"
  by (induction sep ps rule: join.induct) simp_all

lemma join_wrap:
  "ls \<noteq> [] \<Longrightarrow> a @ join sep (l # ls) @ b = join sep ((a @ l) # butlast ls @ [last ls @ b])"
proof (induction ls arbitrary: l a)
  case Nil
  then show ?case by simp
next
  case (Cons m ms)
  show ?case
  proof (cases ms)
    case Nil
    then show ?thesis by simp
  next
    case (Cons n ns)
    then have "[] @ join sep (m # ms) @ b = join sep (([] @ m) # butlast ms @ [last ms @ b])"
      using Cons.IH [of m "[]"] by simp
    with Cons show ?thesis by simp
  qed
qed

lemma str_ints:
  "str_int 1 = ''1''" "str_int 2 = ''2''" "str_int 3 = ''3''" "str_int 4 = ''4''"
  "str_int 5 = ''5''" "str_int 6 = ''6''" "str_int 7 = ''7''" "str_int 8 = ''8''"
  "str_int (-90) = ''-90''" "str_int (-45) = ''-45''" "str_int 0 = ''0''" "str_int 45 = ''45''"
  "str_int 90 = ''90''" "str_int 135 = ''135''" "str_int 180 = ''180''" "str_int 225 = ''225''"
  by (simp_all add: str_int_def str_nat.simps digit_char_def)

text \<open>
  The visualization of the Story Circle is a joined list of lines; a pattern without a
  newline is counted line by line.
\<close>

lemma count_occ_Harmon_visualize:
  assumes "CHR ''\<newline>'' \<notin> set p" and "p \<noteq> []"
  shows "count_occ p (Harmon_visualize float_str self d) =
     count_occ p (''<h1>'' @
             [CHR 0xD0, CHR 0xA1, CHR 0xD1, CHR 0x8E, CHR 0xD0, CHR 0xB6, CHR 0xD0, CHR 0xB5,
              CHR 0xD1, CHR 0x82, CHR 0xD0, CHR 0xBD, CHR 0xD1, CHR 0x8B, CHR 0xD0, CHR 0xB9] @
             '' '' @
             [CHR 0xD0, CHR 0xBA, CHR 0xD1, CHR 0x80, CHR 0xD1, CHR 0x83, CHR 0xD0, CHR 0xB3] @
             '' ('' @ [CHR 0xD0, CHR 0x94, CHR 0xD1, CHR 0x8D, CHR 0xD0, CHR 0xBD] @ '' '' @
             [CHR 0xD0, CHR 0xA5, CHR 0xD0, CHR 0xB0, CHR 0xD1, CHR 0x80, CHR 0xD0, CHR 0xBC,
              CHR 0xD0, CHR 0xBE, CHR 0xD0, CHR 0xBD] @ '')</h1>'')
     + count_occ p ''<div class='harmon-circle'>''
     + sum_list (map (\<lambda>step. sum_list (map (count_occ p) (Harmon_step_parts float_str self step)))
                  (STORY_STEPS self))
     + sum_list (map (count_occ p)
          [''<div class='circle-center'>'', ''Story<br>Circle'', ''</div>'', ''</div>''])
     + count_occ p (''<style>'' @ HarmonStoryCircle.CSS_TEMPLATE self @ ''</style>'')"
proof -
  have c: "sum_list (map (count_occ p) (concat (map f xs))) =
           sum_list (map (\<lambda>x. sum_list (map (count_occ p) (f x))) xs)" for f and xs :: "StoryStep list"
    by (induction xs) simp_all
  show ?thesis
    unfolding Harmon_visualize_def Let_def foldl_append_parts
    by (simp only: count_occ_join [OF assms] c map_append sum_list_append list.map sum_list.Cons sum_list.Nil)
qed

lemma float_skip:
  assumes "float_chars float_str" and "p \<noteq> []" and "hd p \<notin> set ''0123456789.e+-infa''"
  shows "count_occ p (float_str r @ b) = count_occ p b"
proof -
  have "hd p \<notin> set (float_str r)"
    using assms(1,3) unfolding float_chars_def by blast
  with assms(2) show ?thesis by (rule count_occ_skip)
qed

lemma step_number_in_steps:
  assumes "float_chars float_str"
  shows "sum_list (map (\<lambda>step. sum_list (map (count_occ ''step-number'')
            (Harmon_step_parts float_str self step))) Harmon_STORY_STEPS) = 8"
proof -
  have sk: "count_occ ''step-number'' (float_str r @ b) = count_occ ''step-number'' b" for r b
    using assms by (rule float_skip) simp_all
  show ?thesis
    by (simp add: Harmon_STORY_STEPS_def Harmon_step_parts_def case_prod_unfold Let_def str_ints sk)
qed

text \<open>
  \<^const>\<open>count_occ\<close> is the number of positions at which the pattern starts; a string
  holds a pattern no more often than it holds a factor of the pattern.
\<close>

lemma count_occ_card:
  "count_occ p s = card {i. i \<le> length s \<and> starts_with p (drop i s)}"
proof (induction s)
  case Nil
  have "{i. i \<le> length ([] :: 'a list) \<and> starts_with p (drop i [])} = (if p = [] then {0} else {})"
    by (cases p) auto
  then show ?case by simp
next
  case (Cons c s)
  let ?A = "{i. i \<le> length s \<and> starts_with p (drop i s)}"
  let ?B = "{i. i \<le> length (c # s) \<and> starts_with p (drop i (c # s))}"
  have B: "?B = (if starts_with p (c # s) then {0} else {}) \<union> Suc ` ?A"
  proof (rule set_eqI)
    fix i
    show "i \<in> ?B \<longleftrightarrow> i \<in> (if starts_with p (c # s) then {0} else {}) \<union> Suc ` ?A"
      by (cases i) (auto simp: image_iff)
  qed
  have fin: "finite ?A" by simp
  have "card ?B = (if starts_with p (c # s) then 1 else 0) + card (Suc ` ?A)"
    unfolding B using fin by (simp add: card_insert_if image_iff)
  also have "card (Suc ` ?A) = card ?A"
    by (rule card_image) simp
  finally show ?case using Cons.IH by simp
qed

lemma count_occ_factor: "count_occ (u @ q @ w) s \<le> count_occ q s"
proof -
  let ?A = "{i. i \<le> length s \<and> starts_with (u @ q @ w) (drop i s)}"
  let ?B = "{i. i \<le> length s \<and> starts_with q (drop i s)}"
  have "(\<lambda>i. i + length u) ` ?A \<subseteq> ?B"
  proof
    fix j assume "j \<in> (\<lambda>i. i + length u) ` ?A"
    then obtain i t where j: "j = i + length u" and i: "i \<le> length s"
      and d: "drop i s = (u @ q @ w) @ t"
      by (auto simp: starts_with_iff)
    have "drop j s = drop (length u) (drop i s)"
      by (simp add: j add.commute)
    then have "drop j s = q @ (w @ t)"
      using d by simp
    then have 1: "starts_with q (drop j s)"
      unfolding starts_with_iff by blast
    have "length (drop i s) = length s - i" by simp
    with d have "length u \<le> length s - i" by simp
    with i have "j \<le> length s" by (simp add: j)
    with 1 show "j \<in> ?B" by simp
  qed
  moreover have "inj_on (\<lambda>i. i + length u) ?A" by (simp add: inj_on_def)
  moreover have "finite ?B" by simp
  ultimately have "card ?A \<le> card ?B" by (intro card_inj_on_le)
  then show ?thesis by (simp add: count_occ_card)
qed

lemma count_occ_occurs: "1 \<le> count_occ p (a @ p @ b)"
proof -
  let ?B = "{i. i \<le> length (a @ p @ b) \<and> starts_with p (drop i (a @ p @ b))}"
  have "drop (length a) (a @ p @ b) = p @ b" by simp
  moreover have "starts_with p (p @ b)" by (simp add: starts_with_iff)
  ultimately have "length a \<in> ?B" by simp
  then have ne: "?B \<noteq> {}" by blast
  have fin: "finite ?B" by simp
  from fin ne have "0 < card ?B" using card_gt_0_iff by blast
  then show ?thesis by (simp add: count_occ_card)
qed

lemma Harmon_visualize_holds_css:
  "\<exists>a b. Harmon_visualize float_str self d = a @ HarmonStoryCircle.CSS_TEMPLATE self @ b"
proof -
  have split: "join sep (hs @ cs @ [f1, f2, f3, f4, x @ css @ y]) =
        (join sep (hs @ cs @ [f1, f2, f3, f4]) @ sep @ x) @ css @ y"
    for sep x y css f1 f2 f3 f4 and hs cs :: "string list"
    using join_snoc [of "hs @ cs @ [f1, f2, f3, f4]" sep "x @ css @ y"] by simp
  show ?thesis
    unfolding Harmon_visualize_def Let_def foldl_append_parts append_assoc
    by (intro exI) (rule split)
qed

lemma css_factor: "\<exists>u w. Harmon_CSS_TEMPLATE = u @ ''harmon-circle {'' @ w"
proof -
  have "take 25 Harmon_CSS_TEMPLATE = ''\<newline>        .'' @ ''harmon-circle {''"
    by (simp add: Harmon_CSS_TEMPLATE_def)
  then have "Harmon_CSS_TEMPLATE = ''\<newline>        .'' @ ''harmon-circle {'' @ drop 25 Harmon_CSS_TEMPLATE"
    by (metis append_take_drop_id append_assoc)
  then show ?thesis by blast
qed

text \<open>The counts in the parts of the visualization, for the three patterns used below.\<close>

lemma header_counts:
  "count_occ ''step-number'' (''<h1>'' @
             [CHR 0xD0, CHR 0xA1, CHR 0xD1, CHR 0x8E, CHR 0xD0, CHR 0xB6, CHR 0xD0, CHR 0xB5,
              CHR 0xD1, CHR 0x82, CHR 0xD0, CHR 0xBD, CHR 0xD1, CHR 0x8B, CHR 0xD0, CHR 0xB9] @
             '' '' @
             [CHR 0xD0, CHR 0xBA, CHR 0xD1, CHR 0x80, CHR 0xD1, CHR 0x83, CHR 0xD0, CHR 0xB3] @
             '' ('' @ [CHR 0xD0, CHR 0x94, CHR 0xD1, CHR 0x8D, CHR 0xD0, CHR 0xBD] @ '' '' @
             [CHR 0xD0, CHR 0xA5, CHR 0xD0, CHR 0xB0, CHR 0xD1, CHR 0x80, CHR 0xD0, CHR 0xBC,
              CHR 0xD0, CHR 0xBE, CHR 0xD0, CHR 0xBD] @ '')</h1>'') = 0"
  "count_occ ''<div class='step-number'>'' (''<h1>'' @
             [CHR 0xD0, CHR 0xA1, CHR 0xD1, CHR 0x8E, CHR 0xD0, CHR 0xB6, CHR 0xD0, CHR 0xB5,
              CHR 0xD1, CHR 0x82, CHR 0xD0, CHR 0xBD, CHR 0xD1, CHR 0x8B, CHR 0xD0, CHR 0xB9] @
             '' '' @
             [CHR 0xD0, CHR 0xBA, CHR 0xD1, CHR 0x80, CHR 0xD1, CHR 0x83, CHR 0xD0, CHR 0xB3] @
             '' ('' @ [CHR 0xD0, CHR 0x94, CHR 0xD1, CHR 0x8D, CHR 0xD0, CHR 0xBD] @ '' '' @
             [CHR 0xD0, CHR 0xA5, CHR 0xD0, CHR 0xB0, CHR 0xD1, CHR 0x80, CHR 0xD0, CHR 0xBC,
              CHR 0xD0, CHR 0xBE, CHR 0xD0, CHR 0xBD] @ '')</h1>'') = 0"
  "count_occ ''harmon-circle {'' (''<h1>'' @
             [CHR 0xD0, CHR 0xA1, CHR 0xD1, CHR 0x8E, CHR 0xD0, CHR 0xB6, CHR 0xD0, CHR 0xB5,
              CHR 0xD1, CHR 0x82, CHR 0xD0, CHR 0xBD, CHR 0xD1, CHR 0x8B, CHR 0xD0, CHR 0xB9] @
             '' '' @
             [CHR 0xD0, CHR 0xBA, CHR 0xD1, CHR 0x80, CHR 0xD1, CHR 0x83, CHR 0xD0, CHR 0xB3] @
             '' ('' @ [CHR 0xD0, CHR 0x94, CHR 0xD1, CHR 0x8D, CHR 0xD0, CHR 0xBD] @ '' '' @
             [CHR 0xD0, CHR 0xA5, CHR 0xD0, CHR 0xB0, CHR 0xD1, CHR 0x80, CHR 0xD0, CHR 0xBC,
              CHR 0xD0, CHR 0xBE, CHR 0xD0, CHR 0xBD] @ '')</h1>'') = 0"
  "count_occ ''step-number'' ''<div class='harmon-circle'>'' = 0"
  "count_occ ''<div class='step-number'>'' ''<div class='harmon-circle'>'' = 0"
  "count_occ ''harmon-circle {'' ''<div class='harmon-circle'>'' = 0"
  by simp_all

lemma footer_counts:
  "sum_list (map (count_occ ''step-number'')
     [''<div class='circle-center'>'', ''Story<br>Circle'', ''</div>'', ''</div>'']) = 0"
  "sum_list (map (count_occ ''<div class='step-number'>'')
     [''<div class='circle-center'>'', ''Story<br>Circle'', ''</div>'', ''</div>'']) = 0"
  "sum_list (map (count_occ ''harmon-circle {'')
     [''<div class='circle-center'>'', ''Story<br>Circle'', ''</div>'', ''</div>'']) = 0"
  by simp_all

lemma style_count_step_number:
  "count_occ ''step-number'' (''<style>'' @ Harmon_CSS_TEMPLATE @ ''</style>'') = 1"
  unfolding Harmon_CSS_TEMPLATE_def
  by (subst join_wrap) (simp_all add: count_occ_join del: join.simps)

lemma style_count_marker:
  "count_occ ''<div class='step-number'>'' (''<style>'' @ Harmon_CSS_TEMPLATE @ ''</style>'') = 0"
  unfolding Harmon_CSS_TEMPLATE_def
  by (subst join_wrap) (simp_all add: count_occ_join del: join.simps)

lemma style_count_rule:
  "count_occ ''harmon-circle {'' (''<style>'' @ Harmon_CSS_TEMPLATE @ ''</style>'') = 1"
  unfolding Harmon_CSS_TEMPLATE_def
  by (subst join_wrap) (simp_all add: count_occ_join del: join.simps)

lemma marker_in_steps:
  assumes "float_chars float_str"
  shows "sum_list (map (\<lambda>step. sum_list (map (count_occ ''<div class='step-number'>'')
            (Harmon_step_parts float_str self step))) Harmon_STORY_STEPS) = 8"
proof -
  have sk: "count_occ ''<div class='step-number'>'' (float_str r @ b) =
            count_occ ''<div class='step-number'>'' b" for r b
    using assms by (rule float_skip) simp_all
  show ?thesis
    by (simp add: Harmon_STORY_STEPS_def Harmon_step_parts_def case_prod_unfold Let_def str_ints sk)
qed

lemma rule_in_steps:
  assumes "float_chars float_str"
  shows "sum_list (map (\<lambda>step. sum_list (map (count_occ ''harmon-circle {'')
            (Harmon_step_parts float_str self step))) Harmon_STORY_STEPS) = 0"
proof -
  have sk: "count_occ ''harmon-circle {'' (float_str r @ b) =
            count_occ ''harmon-circle {'' b" for r b
    using assms by (rule float_skip) simp_all
  show ?thesis
    by (simp add: Harmon_STORY_STEPS_def Harmon_step_parts_def case_prod_unfold Let_def str_ints sk)
qed

lemma Harmon_class_fields:
  "STORY_STEPS (Harmon_class dn) = Harmon_STORY_STEPS"
  "HarmonStoryCircle.CSS_TEMPLATE (Harmon_class dn) = Harmon_CSS_TEMPLATE"
  by (simp_all add: Harmon_class_def)

lemma count_step_number:
  assumes "float_chars float_str"
  shows "count_occ ''step-number'' (Harmon_visualize float_str (Harmon_class dn) d) = 9"
proof -
  have nl: "CHR ''\<newline>'' \<notin> set ''step-number''" by simp
  have ne: "''step-number'' \<noteq> []" by simp
  show ?thesis
    unfolding count_occ_Harmon_visualize [OF nl ne] Harmon_class_fields header_counts
      footer_counts step_number_in_steps [OF assms] style_count_step_number
    by simp
qed

lemma count_marker:
  assumes "float_chars float_str"
  shows "count_occ ''<div class='step-number'>'' (Harmon_visualize float_str (Harmon_class dn) d) = 8"
proof -
  have nl: "CHR ''\<newline>'' \<notin> set ''<div class='step-number'>''" by simp
  have ne: "''<div class='step-number'>'' \<noteq> []" by simp
  show ?thesis
    unfolding count_occ_Harmon_visualize [OF nl ne] Harmon_class_fields header_counts
      footer_counts marker_in_steps [OF assms] style_count_marker
    by simp
qed

lemma count_rule:
  assumes "float_chars float_str"
  shows "count_occ ''harmon-circle {'' (Harmon_visualize float_str (Harmon_class dn) d) = 1"
proof -
  have nl: "CHR ''\<newline>'' \<notin> set ''harmon-circle {''" by simp
  have ne: "''harmon-circle {'' \<noteq> []" by simp
  show ?thesis
    unfolding count_occ_Harmon_visualize [OF nl ne] Harmon_class_fields header_counts
      footer_counts rule_in_steps [OF assms] style_count_rule
    by simp
qed

lemma count_css:
  assumes "float_chars float_str"
  shows "count_occ Harmon_CSS_TEMPLATE (Harmon_visualize float_str (Harmon_class dn) d) = 1"
proof -
  let ?v = "Harmon_visualize float_str (Harmon_class dn) d"
  obtain u w where f: "Harmon_CSS_TEMPLATE = u @ ''harmon-circle {'' @ w"
    using css_factor by blast
  have "count_occ (u @ ''harmon-circle {'' @ w) ?v \<le> count_occ ''harmon-circle {'' ?v"
    by (rule count_occ_factor)
  then have le: "count_occ Harmon_CSS_TEMPLATE ?v \<le> 1"
    unfolding f [symmetric] count_rule [OF assms] .
  obtain a b where e: "?v = a @ Harmon_CSS_TEMPLATE @ b"
    using Harmon_visualize_holds_css [of float_str "Harmon_class dn" d]
    unfolding Harmon_class_fields by blast
  have "1 \<le> count_occ Harmon_CSS_TEMPLATE (a @ Harmon_CSS_TEMPLATE @ b)"
    by (rule count_occ_occurs)
  then have "1 \<le> count_occ Harmon_CSS_TEMPLATE ?v"
    unfolding e [symmetric] .
  with le show ?thesis by simp
qed

lemma foldl_update_fresh:
  assumes "distinct (map k xs)" and "\<forall>x \<in> set xs. k x \<notin> fst ` set d"
  shows "foldl (\<lambda>d x. AList.update (k x) (v x) d) d xs = d @ map (\<lambda>x. (k x, v x)) xs"
  using assms
proof (induction xs arbitrary: d)
  case Nil
  then show ?case by simp
next
  case (Cons x xs)
  have "\<forall>y \<in> set xs. k y \<notin> fst ` set (d @ [(k x, v x)])"
    using Cons.prems by (fastforce simp: image_iff)
  moreover have "distinct (map k xs)"
    using Cons.prems(1) by simp
  ultimately show ?case
    using Cons.prems(2) by (simp add: update_fresh Cons.IH)
qed

lemma Harmon_names_distinct: "distinct (map StoryStep.name Harmon_STORY_STEPS)"
  by (simp add: Harmon_STORY_STEPS_def)

lemma Harmon_steps_dict:
  "map_of (structure (Harmon_analyze float_str (Harmon_class dn) text)) ''steps'' =
     Some (HDict (map (\<lambda>step. (StoryStep.name step, HDict (analyze_step (Harmon_class dn) step text)))
                    Harmon_STORY_STEPS))"
  by (simp add: Harmon_analyze_def Let_def Harmon_class_fields foldl_update_fresh
        Harmon_names_distinct)

lemma float_chars_zero: "float_chars zero_float_str"
  by (simp add: float_chars_def zero_float_str_def)


subsection \<open>The partitioner on a complete catalog\<close>

text \<open>
  The partitioner on a complete catalog: with \<^verbatim>\<open>TOTAL_STAGES\<close> stages whose keys differ,
  it returns one window per stage, in catalog order, and the windows concatenated are the
  text.
\<close>

lemma concat_slices: "concat (map (\<lambda>i. slice text (i * l) ((i + 1) * l)) [0..<k]) = take (k * l) text"
proof (induction k)
  case 0
  then show ?case by simp
next
  case (Suc k)
  have "take (k * l) text = take (k * l) (take (Suc k * l) text)"
    by (simp add: min_def)
  then have "take (k * l) text @ drop (k * l) (take (Suc k * l) text) = take (Suc k * l) text"
    by (metis append_take_drop_id)
  with Suc show ?case by (simp add: slice_def)
qed

lemma map_enumerate_snd: "map (\<lambda>x. f (snd x)) (enumerate n xs) = map f xs"
  by (induction xs arbitrary: n) simp_all

lemma map_enumerate_fst: "map (\<lambda>x. f (fst x)) (enumerate n xs) = map f [n..<n + length xs]"
  by (induction xs arbitrary: n) (simp_all add: upt_conv_Cons del: upt_Suc)

lemma split_into_stages_windows:
  assumes "distinct (map (stage_key unicode_lower) (STAGES self))"
  shows "split_into_stages unicode_lower self text =
    map (\<lambda>x.
           (stage_key unicode_lower (snd x),
            slice text (fst x * (length text div 12))
              (if fst x < 11 then (fst x + 1) * (length text div 12) else length text)))
      (enumerate 0 (STAGES self))"
proof -
  have d: "distinct (map (\<lambda>x. stage_key unicode_lower (snd x)) (enumerate 0 (STAGES self)))"
    using assms by (simp only: map_enumerate_snd)
  have "12 - 1 = (11::nat)" by simp
  then show ?thesis
    unfolding split_into_stages_def Let_def case_prod_unfold TOTAL_STAGES_def
    using foldl_update_fresh [OF d, of "[]"] by simp
qed

lemma split_into_stages_complete:
  assumes "length (STAGES self) = TOTAL_STAGES" and "distinct (map (stage_key unicode_lower) (STAGES self))"
  shows "length (split_into_stages unicode_lower self text) = TOTAL_STAGES
    \<and> map fst (split_into_stages unicode_lower self text) = map (stage_key unicode_lower) (STAGES self)
    \<and> map snd (split_into_stages unicode_lower self text) =
        map (\<lambda>i. slice text (i * (length text div TOTAL_STAGES))
                   (if i < TOTAL_STAGES - 1 then (i + 1) * (length text div TOTAL_STAGES)
                    else length text))
          [0..<TOTAL_STAGES]
    \<and> concat (map snd (split_into_stages unicode_lower self text)) = text"
proof -
  let ?l = "length text div 12"
  let ?w = "\<lambda>i. slice text (i * ?l) (if i < 11 then (i + 1) * ?l else length text)"
  have n: "length (STAGES self) = 12"
    using assms(1) by (simp add: TOTAL_STAGES_def)
  have s: "map snd (split_into_stages unicode_lower self text) = map ?w [0..<12]"
    unfolding split_into_stages_windows [OF assms(2)]
    using map_enumerate_fst [of ?w 0 "STAGES self"] by (simp add: comp_def n)
  have f: "map fst (split_into_stages unicode_lower self text) = map (stage_key unicode_lower) (STAGES self)"
    unfolding split_into_stages_windows [OF assms(2)]
    using map_enumerate_snd [of "stage_key unicode_lower" 0 "STAGES self"] by (simp add: comp_def)
  have "map ?w [0..<11] = map (\<lambda>i. slice text (i * ?l) ((i + 1) * ?l)) [0..<11]"
    by (rule map_cong) simp_all
  moreover have "[0..<12] = [0..<11] @ [11::nat]"
    by (simp add: upt_rec)
  ultimately have "concat (map ?w [0..<12]) = take (11 * ?l) text @ slice text (11 * ?l) (length text)"
    by (simp only: map_append concat_append concat_slices list.map concat.simps append_Nil2)
       simp
  then have c: "concat (map ?w [0..<12]) = text"
    by (simp add: slice_def)
  have e: "12 - 1 = (11::nat)" by simp
  from n s f c show ?thesis
    unfolding TOTAL_STAGES_def e by (simp add: split_into_stages_windows [OF assms(2)])
qed

subsection \<open>The outcome of the analysis of the Hero's Journey\<close>

text \<open>
  With the catalog of the module, \<^verbatim>\<open>VoglerHeroJourney.analyze\<close> returns for no text: it
  raises in the balance for a text shorter than twelve characters and in \<^verbatim>\<open>visualize\<close>
  otherwise.
\<close>

lemma Vogler_class_fields:
  "STAGES (Vogler_class dn) = Vogler_STAGES"
  "VoglerHeroJourney.CSS_TEMPLATE (Vogler_class dn) = Vogler_CSS_TEMPLATE"
  by (simp_all add: Vogler_class_def)

lemma Vogler_analyze_never_returns:
  "Vogler_analyze float_str unicode_lower (Vogler_class dn) text =
     (if length text < 12 then Inl ZeroDivisionError else Inl AttributeError)"
proof -
  let ?self = "Vogler_class dn"
  let ?c = "split_into_stages unicode_lower ?self text"
  let ?st = "hd Vogler_STAGES"
  have st: "Vogler_STAGES = [?st]"
    by (simp add: Vogler_STAGES_def)
  have "?st \<in> set (STAGES ?self)"
    by (simp add: Vogler_class_fields Vogler_STAGES_def)
  then have "elements ?st \<noteq> []" and "distinct (map StageElement.name (elements ?st))"
    by (rule catalog_stage)+
  then obtain r where r: "analyze_stage unicode_lower ?self ?st ?c = Inr r"
    using analyze_stage_wf by blast
  have name: "Stage.name ?st = ''Ordinary World''"
    by (simp add: Vogler_STAGES_def)
  have w: "\<exists>a b. analyze_world unicode_lower ?self ORDINARY ?c = Inr a \<and> analyze_world unicode_lower ?self SPECIAL ?c = Inr b"
    by (simp add: analyze_world_def Vogler_class_fields Vogler_STAGES_def py_div_def and_then_def Let_def)
  then obtain ow sw where ow: "analyze_world unicode_lower ?self ORDINARY ?c = Inr ow"
    and sw: "analyze_world unicode_lower ?self SPECIAL ?c = Inr sw" by blast
  have stages: "analyze_stages unicode_lower ?self ?c (STAGES ?self) [] = Inr [(''Ordinary World'', AnalysisObj r)]"
    unfolding Vogler_class_fields by (subst st) (simp add: r and_then_def name)
  have overall: "analyze_overall_structure unicode_lower ?self ?c =
      (if length text < 12 then Inl ZeroDivisionError
       else Inr \<lparr>completeness = score r, overall_dict.balance = 0,
                 flow = analyze_narrative_flow ?self ?c\<rparr>)"
    unfolding analyze_overall_structure_def get_stage_analyses_def Vogler_class_fields
      analyze_world_balance_catalog
    by (subst (1 2) st) (simp add: r and_then_def py_div_def)
  have vis: "Vogler_visualize float_str unicode_lower ?self
       \<lparr>stages = [(''Ordinary World'', AnalysisObj r)], worlds = ws, overall = ov\<rparr> =
     Inl AttributeError" for ws ov
    unfolding Vogler_visualize_def Vogler_class_fields Let_def
    by (subst st) (simp add: Vogler_stage_part_def Let_def dict_get_def name and_then_def)
  show ?thesis
    unfolding Vogler_analyze_def Let_def ow sw stages overall
    by (simp add: and_then_def vis)
qed


section \<open>The claims\<close>

text \<open>
  C1. The claim: for every input text, computing the aggregate world balance in
  \<^verbatim>\<open>VoglerHeroJourney.analyze\<close> never raises, the division being guarded. The source
  divides without a guard: for the empty text both world strengths are zero, the balance
  raises \<^verbatim>\<open>ZeroDivisionError\<close>, and so does \<^verbatim>\<open>analyze\<close>.
\<close>

theorem world_balance_raises_on_empty_text:
  "analyze_world_balance unicode_lower (Vogler_class dn)
     (split_into_stages unicode_lower (Vogler_class dn) '''') =
     Inl ZeroDivisionError
   \<and> Vogler_analyze float_str unicode_lower (Vogler_class dn) '''' = Inl ZeroDivisionError"
  by (simp add: Vogler_analyze_def Vogler_eval)

text \<open>
  C2. The claim: \<^verbatim>\<open>_split_into_stages\<close> produces exactly \<^verbatim>\<open>TOTAL_STAGES\<close> windows
  whose concatenation is the text. The catalog of the source holds one stage of the twelve
  declared, so a text of 24 characters yields the single window of its first two characters.
  On a catalog of twelve stages the partitioner does what the claim says
  (\<open>split_into_stages_complete\<close>).
\<close>

theorem split_into_stages_one_window:
  "split_into_stages unicode_lower (Vogler_class dn) ''abcdefghijklmnopqrstuvwx'' =
     [(''ordinary_world'', ''ab'')]
   \<and> length (split_into_stages unicode_lower (Vogler_class dn) ''abcdefghijklmnopqrstuvwx'') \<noteq>
       TOTAL_STAGES
   \<and> concat (map snd
         (split_into_stages unicode_lower (Vogler_class dn) ''abcdefghijklmnopqrstuvwx'')) \<noteq>
       ''abcdefghijklmnopqrstuvwx''"
  by (simp add: Vogler_eval)

text \<open>
  C3, as amended. For every stage that has elements, with distinct names and keywords in
  lower case (as every stage of the catalog is), and every window (the entry of the stage in
  the content dictionary, or the empty string), \<^verbatim>\<open>_analyze_stage\<close> returns an analysis
  in which an element is marked present exactly when one of its keywords occurs
  case-insensitively in the window; the score is the number of present elements over the
  number of elements; the strengths hold one note per present element and the weaknesses one
  note per absent element, in the order of the elements.
\<close>

theorem analyze_stage_keyword_matching:
  assumes "elements stage \<noteq> []"
    and "distinct (map StageElement.name (elements stage))"
    and "\<forall>e \<in> set (elements stage). \<forall>k \<in> set (keywords' e). lower unicode_lower k = k"
  shows "\<exists>r. analyze_stage unicode_lower self stage content = Inr r
    \<and> map fst (elements_present r) = map StageElement.name (elements stage)
    \<and> (\<forall>e \<in> set (elements stage).
          map_of (elements_present r) (StageElement.name e) =
            Some (\<exists>k \<in> set (keywords' e).
                    occurs_ci unicode_lower k
                      (dict_get content (stage_key unicode_lower stage) '''')))
    \<and> score r =
        real (length (filter (\<lambda>e. \<exists>k \<in> set (keywords' e).
                                occurs_ci unicode_lower k
                                  (dict_get content (stage_key unicode_lower stage) ''''))
                        (elements stage)))
        / real (length (elements stage))
    \<and> strengths r =
        map (\<lambda>e. StageElement.name e @ '' is well established'')
          (filter (\<lambda>e. \<exists>k \<in> set (keywords' e).
                     occurs_ci unicode_lower k
                       (dict_get content (stage_key unicode_lower stage) ''''))
             (elements stage))
    \<and> weaknesses r =
        map (\<lambda>e. StageElement.name e @ '' needs more development'')
          (filter (\<lambda>e. \<not> (\<exists>k \<in> set (keywords' e).
                     occurs_ci unicode_lower k
                       (dict_get content (stage_key unicode_lower stage) '''')))
             (elements stage))"
proof -
  let ?w = "dict_get content (stage_key unicode_lower stage) ''''"
  let ?code = "\<lambda>e. list_ex (\<lambda>k. contains k (lower unicode_lower ?w)) (keywords' e)"
  let ?spec = "\<lambda>e. \<exists>k \<in> set (keywords' e). occurs_ci unicode_lower k ?w"
  have same: "?code e = ?spec e" if "e \<in> set (elements stage)" for e
    using assms(3) that by (auto simp: list_ex_iff occurs_ci_code)
  have f1: "filter ?code (elements stage) = filter ?spec (elements stage)"
    by (rule filter_cong [OF refl]) (rule same)
  have f2: "filter (\<lambda>e. \<not> ?code e) (elements stage) = filter (\<lambda>e. \<not> ?spec e) (elements stage)"
    by (rule filter_cong [OF refl]) (simp add: same)
  have m: "map (\<lambda>e. (StageElement.name e, ?code e)) (elements stage) =
           map (\<lambda>e. (StageElement.name e, ?spec e)) (elements stage)"
    using same by simp
  have look: "map_of (map (\<lambda>e. (StageElement.name e, ?spec e)) (elements stage))
        (StageElement.name e) = Some (?spec e)"
    if "e \<in> set (elements stage)" for e
  proof (rule map_of_is_SomeI)
    show "distinct (map fst (map (\<lambda>e. (StageElement.name e, ?spec e)) (elements stage)))"
      using assms(2) by (simp add: comp_def)
    show "(StageElement.name e, ?spec e) \<in>
        set (map (\<lambda>e. (StageElement.name e, ?spec e)) (elements stage))"
      using that by auto
  qed
  show ?thesis
    unfolding analyze_stage_wf [OF assms(1,2)] f1 f2 m
    by (simp add: comp_def look)
qed

theorem analyze_stage_keyword_matching_witness:
  "elements (hd Vogler_STAGES) \<noteq> []
   \<and> distinct (map StageElement.name (elements (hd Vogler_STAGES)))
   \<and> list_all (\<lambda>e. list_all (\<lambda>k. lower plain_lower k = k) (keywords' e))
       (elements (hd Vogler_STAGES))
   \<and> analyze_stage plain_lower (Vogler_class '''') (hd Vogler_STAGES)
         [(''ordinary_world'', ''A Normal day'')] =
       Inr \<lparr>elements_present = [(''Initial State'', True), (''Character Establishment'', False)],
            strengths = [''Initial State is well established''],
            weaknesses = [''Character Establishment needs more development''],
            score = 1 / 2\<rparr>
   \<and> (\<exists>r. analyze_stage plain_lower (Vogler_class '''') (hd Vogler_STAGES)
              [(''ordinary_world'', ''A Normal day'')] = Inr r
          \<and> map fst (elements_present r) = map StageElement.name (elements (hd Vogler_STAGES))
          \<and> score r =
              real (length (filter (\<lambda>e. \<exists>k \<in> set (keywords' e).
                                      occurs_ci plain_lower k ''A Normal day'')
                              (elements (hd Vogler_STAGES))))
              / real (length (elements (hd Vogler_STAGES))))"
proof -
  have m: "hd Vogler_STAGES \<in> set (STAGES (Vogler_class ''''))"
    by (simp add: Vogler_class_def Vogler_STAGES_def)
  note cat = catalog_stage(1,2) [OF m]
  have low: "\<forall>e \<in> set (elements (hd Vogler_STAGES)). \<forall>k \<in> set (keywords' e).
      lower plain_lower k = k"
    using catalog_stage(3) [OF m, of plain_lower] by blast
  then have low': "list_all (\<lambda>e. list_all (\<lambda>k. lower plain_lower k = k) (keywords' e))
       (elements (hd Vogler_STAGES))"
    by (simp add: list_all_iff)
  have w: "dict_get [(''ordinary_world'', ''A Normal day'')]
      (stage_key plain_lower (hd Vogler_STAGES)) '''' = ''A Normal day''"
    by (simp add: Vogler_eval)
  have e: "analyze_stage plain_lower (Vogler_class '''') (hd Vogler_STAGES)
         [(''ordinary_world'', ''A Normal day'')] =
       Inr \<lparr>elements_present = [(''Initial State'', True), (''Character Establishment'', False)],
            strengths = [''Initial State is well established''],
            weaknesses = [''Character Establishment needs more development''],
            score = 1 / 2\<rparr>"
    by (simp add: Vogler_eval)
  from analyze_stage_keyword_matching [OF cat(1,2) low,
      where self = "Vogler_class ''''" and content = "[(''ordinary_world'', ''A Normal day'')]"]
  obtain r where "analyze_stage plain_lower (Vogler_class '''') (hd Vogler_STAGES)
              [(''ordinary_world'', ''A Normal day'')] = Inr r"
    and "map fst (elements_present r) = map StageElement.name (elements (hd Vogler_STAGES))"
    and "score r =
              real (length (filter (\<lambda>e. \<exists>k \<in> set (keywords' e).
                                      occurs_ci plain_lower k ''A Normal day'')
                              (elements (hd Vogler_STAGES))))
              / real (length (elements (hd Vogler_STAGES)))"
    unfolding w by blast
  with cat(1,2) low' e show ?thesis by blast
qed

text \<open>
  The claim as stated, for every stage: the source lower-cases the window and not the
  keyword, so an element whose only keyword is \<^verbatim>\<open>Normal\<close> is marked absent in the window
  \<^verbatim>\<open>normal\<close>, where the keyword occurs case-insensitively.
\<close>

theorem keyword_case_is_not_folded:
  "analyze_stage plain_lower (Vogler_class '''')
     (Stage 1 ''Ordinary World'' ''Hero's starting point'' BEGINNING ORDINARY
        [StageElement ''Initial State'' ''Hero's life before the adventure'' [''Normal'']
           9 ORDINARY]
        0 ''#e6f3ff'')
     [(''ordinary_world'', ''normal'')] =
     Inr \<lparr>elements_present = [(''Initial State'', False)],
          strengths = [],
          weaknesses = [''Initial State needs more development''],
          score = 0\<rparr>
   \<and> occurs_ci plain_lower ''Normal'' ''normal''"
  by (simp add: occurs_ci_code Vogler_eval)

text \<open>
  C4. For every stage of the catalog and every content dictionary, \<^verbatim>\<open>_analyze_stage\<close>
  returns an analysis (it does not raise) whose score lies in \<open>[0, 1]\<close>; when the window
  of the stage is absent from the dictionary or empty, every element is marked absent and
  the score is 0.
\<close>

theorem analyze_stage_total_and_bounded:
  assumes "stage \<in> set (STAGES (Vogler_class dn))"
  shows "\<exists>r. analyze_stage unicode_lower (Vogler_class dn) stage content = Inr r
    \<and> 0 \<le> score r \<and> score r \<le> 1
    \<and> (map_of content (stage_key unicode_lower stage) = None
         \<or> map_of content (stage_key unicode_lower stage) = Some ''''
        \<longrightarrow> map fst (elements_present r) = map StageElement.name (elements stage)
          \<and> (\<forall>e \<in> set (elements_present r). \<not> snd e)
          \<and> score r = 0
          \<and> strengths r = [])"
proof -
  let ?w = "dict_get content (stage_key unicode_lower stage) ''''"
  let ?code = "\<lambda>e. list_ex (\<lambda>k. contains k (lower unicode_lower ?w)) (keywords' e)"
  note cat = catalog_stage [OF assms]
  have le: "real (length (filter ?code (elements stage))) / real (length (elements stage)) \<le> 1"
    using cat(1) by (simp add: divide_le_eq_1)
  have none: "\<not> ?code e" if "?w = ''''" and "e \<in> set (elements stage)" for e
    using cat(3) that by (auto simp: list_ex_iff lower_def)
  have empty: "?w = ''''"
    if "map_of content (stage_key unicode_lower stage) = None \<or> map_of content (stage_key unicode_lower stage) = Some ''''"
    using that by (auto simp: dict_get_def)
  have f0: "filter ?code (elements stage) = []" if "?w = ''''"
    using none [OF that] by (auto simp: filter_empty_conv)
  show ?thesis
    unfolding analyze_stage_wf [OF cat(1,2)]
    using le none empty f0 by (auto simp: comp_def)
qed

theorem analyze_stage_total_and_bounded_witness:
  "hd Vogler_STAGES \<in> set (STAGES (Vogler_class ''''))
   \<and> map_of [] (stage_key plain_lower (hd Vogler_STAGES)) = (None :: string option)
   \<and> analyze_stage plain_lower (Vogler_class '''') (hd Vogler_STAGES) [] =
       Inr \<lparr>elements_present = [(''Initial State'', False), (''Character Establishment'', False)],
            strengths = [],
            weaknesses = [''Initial State needs more development'',
                          ''Character Establishment needs more development''],
            score = 0\<rparr>
   \<and> (\<exists>r. analyze_stage plain_lower (Vogler_class '''') (hd Vogler_STAGES) [] = Inr r
          \<and> 0 \<le> score r \<and> score r \<le> 1 \<and> score r = 0 \<and> strengths r = [])"
proof -
  have m: "hd Vogler_STAGES \<in> set (STAGES (Vogler_class ''''))"
    by (simp add: Vogler_class_def Vogler_STAGES_def)
  have n: "map_of [] (stage_key plain_lower (hd Vogler_STAGES)) = (None :: string option)"
    by simp
  have e: "analyze_stage plain_lower (Vogler_class '''') (hd Vogler_STAGES) [] =
       Inr \<lparr>elements_present = [(''Initial State'', False), (''Character Establishment'', False)],
            strengths = [],
            weaknesses = [''Initial State needs more development'',
                          ''Character Establishment needs more development''],
            score = 0\<rparr>"
    by (simp add: Vogler_eval)
  from analyze_stage_total_and_bounded
      [OF m, where content = "[]" and unicode_lower = plain_lower] n
  obtain r where "analyze_stage plain_lower (Vogler_class '''') (hd Vogler_STAGES) [] = Inr r"
    and "0 \<le> score r" and "score r \<le> 1" and "score r = 0" and "strengths r = []"
    by blast
  with m n e show ?thesis by blast
qed

text \<open>
  C5. \<^verbatim>\<open>_calculate_step_position\<close> depends on the step number and the radius only; its
  angle in degrees is \<open>(step_number - 1) * (360 / 8) - 90\<close>, which is \<open>-90\<close> for step 1,
  the top of the circle; and the point it returns lies on the circle of the given radius.
  Floats are real numbers here, so the last equation is exact.
\<close>

theorem calculate_step_position_on_circle:
  "calculate_step_position self step_number radius =
     (of_int radius * cos (radians (of_int ((step_number - 1) * (360 div 8) - 90))),
      of_int radius * sin (radians (of_int ((step_number - 1) * (360 div 8) - 90))))
   \<and> calculate_step_position self 1 radius =
       (of_int radius * cos (radians (- 90)), of_int radius * sin (radians (- 90)))
   \<and> calculate_step_position self 1 radius = (0, - of_int radius)
   \<and> (fst (calculate_step_position self step_number radius))\<^sup>2 +
       (snd (calculate_step_position self step_number radius))\<^sup>2 = (of_int radius)\<^sup>2
   \<and> calculate_step_position self step_number radius =
       calculate_step_position self' step_number radius"
  by (simp add: calculate_step_position_def Let_def scaled_point_on_circle radians_minus_90)

text \<open>
  C6. The fixed-judgment policy ignores the text: for every text and every step,
  \<^verbatim>\<open>_analyze_step\<close> reports presence \<^verbatim>\<open>True\<close>, strength \<^verbatim>\<open>"medium"\<close>, no
  suggestions and all criteria of the step as met; \<^verbatim>\<open>_evaluate_overall_structure\<close> reports
  the constant verdict; and the structure that \<^verbatim>\<open>analyze\<close> builds is the same for any
  two texts.
\<close>

theorem fixed_judgment_ignores_text:
  "analyze_step self step text = analyze_step self step text'
   \<and> map_of (analyze_step self step text) ''presence'' = Some (HBool True)
   \<and> map_of (analyze_step self step text) ''strength'' = Some (HStr ''medium'')
   \<and> map_of (analyze_step self step text) ''suggestions'' = Some (HList [])
   \<and> map_of (analyze_step self step text) ''criteria_met'' =
       Some (HList (map HStr (analysis_criteria step)))
   \<and> evaluate_overall_structure self text = evaluate_overall_structure self text'
   \<and> map_of (evaluate_overall_structure self text) ''circle_completion'' = Some (HBool True)
   \<and> map_of (evaluate_overall_structure self text) ''balance'' = Some (HStr ''well_balanced'')
   \<and> map_of (evaluate_overall_structure self text) ''suggestions'' = Some (HList [])
   \<and> structure (Harmon_analyze float_str self text) =
       structure (Harmon_analyze float_str self text')"
  by (simp add: analyze_step_def evaluate_overall_structure_def Harmon_analyze_def Let_def)

text \<open>
  C7, as amended. For every text, and a float printer that prints float characters only, the
  structure returned by \<^verbatim>\<open>HarmonStoryCircle.analyze\<close> has under \<^verbatim>\<open>"steps"\<close> a
  dictionary whose keys are the 8 step names of the catalog, in catalog order and without
  repetition; its visualization holds exactly 8 occurrences of the per-step marker
  \<^verbatim>\<open><div class='step-number'>\<close> and exactly one occurrence of the CSS block. The bare
  string \<^verbatim>\<open>step-number\<close> occurs 9 times: the ninth occurrence is the rule
  \<^verbatim>\<open>.step-number\<close> of the CSS block.
\<close>

theorem Harmon_analyze_steps_and_markers:
  assumes "float_chars float_str"
  shows "(\<exists>steps. map_of (structure (Harmon_analyze float_str (Harmon_class dn) text)) ''steps'' =
             Some (HDict steps)
           \<and> map fst steps = map StoryStep.name Harmon_STORY_STEPS
           \<and> distinct (map fst steps) \<and> length steps = 8)
    \<and> count_occ ''<div class='step-number'>''
           (visualization (Harmon_analyze float_str (Harmon_class dn) text)) = 8
    \<and> count_occ ''step-number''
           (visualization (Harmon_analyze float_str (Harmon_class dn) text)) = 9
    \<and> count_occ Harmon_CSS_TEMPLATE
           (visualization (Harmon_analyze float_str (Harmon_class dn) text)) = 1"
proof (intro conjI)
  have "length Harmon_STORY_STEPS = 8"
    by (simp add: Harmon_STORY_STEPS_def)
  then show "\<exists>steps. map_of (structure (Harmon_analyze float_str (Harmon_class dn) text)) ''steps'' =
             Some (HDict steps)
           \<and> map fst steps = map StoryStep.name Harmon_STORY_STEPS
           \<and> distinct (map fst steps) \<and> length steps = 8"
    unfolding Harmon_steps_dict using Harmon_names_distinct by (simp add: comp_def)
  have v: "visualization (Harmon_analyze float_str (Harmon_class dn) text) =
      Harmon_visualize float_str (Harmon_class dn)
        (structure (Harmon_analyze float_str (Harmon_class dn) text))"
    by (rule Harmon_analyze_consistent)
  show "count_occ ''<div class='step-number'>''
           (visualization (Harmon_analyze float_str (Harmon_class dn) text)) = 8"
    unfolding v by (rule count_marker [OF assms])
  show "count_occ ''step-number''
           (visualization (Harmon_analyze float_str (Harmon_class dn) text)) = 9"
    unfolding v by (rule count_step_number [OF assms])
  show "count_occ Harmon_CSS_TEMPLATE
           (visualization (Harmon_analyze float_str (Harmon_class dn) text)) = 1"
    unfolding v by (rule count_css [OF assms])
qed

theorem Harmon_analyze_steps_and_markers_witness:
  "float_chars zero_float_str
   \<and> count_occ ''<div class='step-number'>''
       (visualization (Harmon_analyze zero_float_str (Harmon_class '''') ''once upon a time'')) = 8
   \<and> count_occ Harmon_CSS_TEMPLATE
       (visualization (Harmon_analyze zero_float_str (Harmon_class '''') ''once upon a time'')) = 1"
  using float_chars_zero
    Harmon_analyze_steps_and_markers [OF float_chars_zero, of "''''" "''once upon a time''"]
  by blast

text \<open>
  The claim as stated counts 8 occurrences of \<^verbatim>\<open>step-number\<close>; for the empty text the
  visualization holds 9.
\<close>

theorem step_number_occurs_nine_times:
  "count_occ ''step-number''
     (visualization (Harmon_analyze zero_float_str (Harmon_class '''') '''')) = 9
   \<and> count_occ ''step-number''
     (visualization (Harmon_analyze zero_float_str (Harmon_class '''') '''')) \<noteq> 8"
  by (simp add: Harmon_analyze_consistent count_step_number [OF float_chars_zero])

text \<open>
  C8. In both catalogs the stage numbers are \<open>1..N\<close> in order, \<open>N\<close> being the number of
  stages of the catalog (8 and 1), and after any sequence of calls of the public methods the
  class state, the catalog with it, is the one the module loaded.
\<close>

theorem catalog_ordinals_contiguous:
  "Harmon_run float_str (Harmon_class dn) calls = Harmon_class dn
   \<and> map StoryStep.number (STORY_STEPS (Harmon_run float_str (Harmon_class dn) calls)) =
       [1..int (length (STORY_STEPS (Harmon_run float_str (Harmon_class dn) calls)))]
   \<and> length (STORY_STEPS (Harmon_run float_str (Harmon_class dn) calls)) = 8
   \<and> Vogler_run float_str unicode_lower (Vogler_class dn) vcalls = Vogler_class dn
   \<and> map Stage.number (STAGES (Vogler_run float_str unicode_lower (Vogler_class dn) vcalls)) =
       [1..int (length (STAGES (Vogler_run float_str unicode_lower (Vogler_class dn) vcalls)))]
   \<and> length (STAGES (Vogler_run float_str unicode_lower (Vogler_class dn) vcalls)) = 1"
  by (simp add: Harmon_run_state Vogler_run_state Harmon_class_def Vogler_class_def
        Harmon_STORY_STEPS_def Vogler_STAGES_def upto_rec1)

text \<open>
  C9. For both structures, \<^verbatim>\<open>visualize\<close> called twice in a row on the same dictionary
  gives the same outcome, and so does a call made after any other calls of the public
  methods: the outcome depends on the argument and the class constants only.
\<close>

theorem visualize_deterministic:
  "snd (Harmon_exec float_str (fst (Harmon_exec float_str self (HVisualize d))) (HVisualize d)) =
     snd (Harmon_exec float_str self (HVisualize d))
   \<and> Harmon_visualize float_str (Harmon_run float_str self calls) d' =
       Harmon_visualize float_str self d'
   \<and> snd (Vogler_exec float_str unicode_lower
            (fst (Vogler_exec float_str unicode_lower vself (VVisualize vd))) (VVisualize vd)) =
       snd (Vogler_exec float_str unicode_lower vself (VVisualize vd))
   \<and> Vogler_visualize float_str unicode_lower
         (Vogler_run float_str unicode_lower vself vcalls) vd' =
       Vogler_visualize float_str unicode_lower vself vd'"
  by (simp add: Harmon_run_state Vogler_run_state)

text \<open>
  C10. The claim: for both structures the result of \<^verbatim>\<open>analyze\<close> has a visualization
  equal to \<^verbatim>\<open>visualize\<close> of its structure. For the Story Circle this is
  \<open>Harmon_analyze_consistent\<close>. The Hero's Journey stores \<^verbatim>\<open>StageAnalysis\<close> objects in
  the structure and \<^verbatim>\<open>visualize\<close> calls \<^verbatim>\<open>.get\<close> on them: for a text of twelve
  characters \<^verbatim>\<open>analyze\<close> raises \<^verbatim>\<open>AttributeError\<close> and returns no result
  (\<open>Vogler_analyze_never_returns\<close> gives the outcome for every text).
\<close>

theorem Vogler_analyze_raises_in_visualize:
  "Vogler_analyze float_str unicode_lower (Vogler_class dn) ''abcdefghijkl'' = Inl AttributeError"
  by (simp add: Vogler_analyze_def Vogler_eval Vogler_visualize_def Vogler_stage_part_def)

end
